theory Spec2Isabelle
  imports
    Complex_Main
    "HOL-Library.Char_ord"
    "HOL-Library.List_Lexorder"
    "HOL-Library.Option_ord"
    "HOL-Library.Multiset"
begin

section \<open>Conventions of the embedding\<close>

text \<open>
  The program is a JavaScript tool server over an SQLite store. Its functions are
  embedded as HOL functions over explicit values:
  \<^item> a table is the list of its rows, a row is a record;
  \<^item> a JavaScript \<open>Error\<close> thrown by a function is the left summand \<open>Inl (Error msg)\<close> of
    its result;
  \<^item> JavaScript numbers and SQLite \<open>REAL\<close> values that hold money are exact rationals
    (\<open>rat\<close>): the rounding of IEEE doubles is not part of the model; page numbers, limits
    and counts are integers;
  \<^item> an optional argument (\<open>undefined\<close> in JavaScript) is an \<open>option\<close>.
\<close>

datatype error = Error string

section \<open>Pagination of \<open>queryTransactions\<close> (sqlite-adapter.js, lines 321 to 341)\<close>

text \<open>
  \<open>queryTransactions\<close> assembles one \<open>SELECT\<close> statement, derives the count statement from
  it by replacing the select list with \<open>COUNT(*)\<close> (same \<open>FROM\<close>, same \<open>WHERE\<close>), and then
  appends \<open>LIMIT ? OFFSET ?\<close>. The rows that the assembled statement selects, in its
  \<open>ORDER BY\<close> order, are the argument \<open>matching\<close> below; everything after line 321 is
  embedded as written.
\<close>

record pagination_arg =
  arg_page :: "int option"
  arg_limit :: "int option"

record pagination =
  page :: int
  limit :: int
  total :: int
  has_next :: bool

record 'row query_result =
  transactions :: "'row list"
  pagination :: pagination

text \<open>\<open>LIMIT n OFFSET k\<close> of SQLite: a negative limit means no limit, a negative offset
  means offset 0.\<close>

definition sql_limit_offset :: "int \<Rightarrow> int \<Rightarrow> 'row list \<Rightarrow> 'row list" where
  "sql_limit_offset n k rows =
     (let rest = drop (nat k) rows in if n < 0 then rest else take (nat n) rest)"

definition queryTransactions :: "'row list \<Rightarrow> pagination_arg \<Rightarrow> 'row query_result" where
  "queryTransactions matching pg =
     (let page = (case arg_page pg of None \<Rightarrow> 1 | Some p \<Rightarrow> p);
          limit = (case arg_limit pg of None \<Rightarrow> 50 | Some l \<Rightarrow> l);
          actualLimit = min limit 100;
          offset = (page - 1) * actualLimit;
          totalCount = int (length matching)
      in \<lparr> transactions = sql_limit_offset actualLimit offset matching,
           pagination = \<lparr> page = page, limit = actualLimit, total = totalCount,
                          has_next = (page * actualLimit < totalCount) \<rparr> \<rparr>)"

section \<open>The store (sqlite-adapter.js, \<open>createTables\<close>)\<close>

text \<open>
  The columns \<open>type\<close> of \<open>categories\<close> and \<open>transactions\<close> carry a \<open>CHECK\<close> constraint
  that admits the two texts \<open>income\<close> and \<open>expense\<close> only; they are the datatype \<open>kind\<close>.
  Dates are \<open>TEXT\<close> and compared as texts, so they are strings with the lexicographic
  order of their characters. The columns \<open>created_at\<close>, \<open>updated_at\<close> and the
  \<open>description\<close> of a category are read by no function embedded here and are left out.
\<close>

datatype kind = Income | Expense

fun kind_text :: "kind \<Rightarrow> string" where
  "kind_text Income = ''income''"
| "kind_text Expense = ''expense''"

definition kind_of_text :: "string \<Rightarrow> kind option" where
  "kind_of_text s =
     (if s = ''income'' then Some Income else if s = ''expense'' then Some Expense else None)"

record category =
  cat_id :: string
  cat_name :: string
  cat_type :: kind
  cat_parent_id :: "string option"
  cat_active :: bool

record ledger =
  led_id :: string
  led_name :: string
  led_type :: string
  led_balance :: rat
  led_currency :: string
  led_active :: bool

record budget =
  bud_id :: string
  bud_category_id :: string
  bud_amount :: rat
  bud_period :: string
  bud_start_date :: string
  bud_end_date :: "string option"
  bud_active :: bool

record txn =
  txn_id :: string
  txn_type :: kind
  txn_amount :: rat
  txn_category_id :: string
  txn_ledger_id :: string
  txn_description :: string
  txn_date :: string
  txn_tags :: string

record store =
  db_categories :: "category list"
  db_ledgers :: "ledger list"
  db_budgets :: "budget list"
  db_transactions :: "txn list"

text \<open>\<open>dbGet\<close> with \<open>WHERE id = ?\<close>: the first row with that id, \<open>undefined\<close> when there
  is none.\<close>

definition get_category :: "store \<Rightarrow> string \<Rightarrow> category option" where
  "get_category db i = find (\<lambda>c. cat_id c = i) (db_categories db)"

definition get_ledger :: "store \<Rightarrow> string \<Rightarrow> ledger option" where
  "get_ledger db i = find (\<lambda>l. led_id l = i) (db_ledgers db)"

text \<open>\<open>Array.prototype.join\<close> on an array of strings.\<close>

fun join :: "string \<Rightarrow> string list \<Rightarrow> string" where
  "join sep [] = []"
| "join sep [x] = x"
| "join sep (x # y # ys) = x @ sep @ join sep (y # ys)"

text \<open>
  \<open>seedData\<close>: the rows that the first start inserts into the empty store;
  \<open>currentMonth\<close> is \<open>new Date().toISOString().slice(0, 7)\<close>.
\<close>

definition seedData :: "string \<Rightarrow> store" where
  "seedData currentMonth =
     \<lparr> db_categories =
         [ \<lparr> cat_id = ''food'', cat_name = ''Food & Dining'', cat_type = Expense,
             cat_parent_id = None, cat_active = True \<rparr>,
           \<lparr> cat_id = ''groceries'', cat_name = ''Groceries'', cat_type = Expense,
             cat_parent_id = Some ''food'', cat_active = True \<rparr>,
           \<lparr> cat_id = ''restaurants'', cat_name = ''Restaurants'', cat_type = Expense,
             cat_parent_id = Some ''food'', cat_active = True \<rparr>,
           \<lparr> cat_id = ''transport'', cat_name = ''Transportation'', cat_type = Expense,
             cat_parent_id = None, cat_active = True \<rparr>,
           \<lparr> cat_id = ''gas'', cat_name = ''Gas & Fuel'', cat_type = Expense,
             cat_parent_id = Some ''transport'', cat_active = True \<rparr>,
           \<lparr> cat_id = ''public_transport'', cat_name = ''Public Transport'', cat_type = Expense,
             cat_parent_id = Some ''transport'', cat_active = True \<rparr>,
           \<lparr> cat_id = ''entertainment'', cat_name = ''Entertainment'', cat_type = Expense,
             cat_parent_id = None, cat_active = True \<rparr>,
           \<lparr> cat_id = ''movies'', cat_name = ''Movies & Shows'', cat_type = Expense,
             cat_parent_id = Some ''entertainment'', cat_active = True \<rparr>,
           \<lparr> cat_id = ''utilities'', cat_name = ''Utilities'', cat_type = Expense,
             cat_parent_id = None, cat_active = True \<rparr>,
           \<lparr> cat_id = ''electricity'', cat_name = ''Electricity'', cat_type = Expense,
             cat_parent_id = Some ''utilities'', cat_active = True \<rparr>,
           \<lparr> cat_id = ''internet'', cat_name = ''Internet'', cat_type = Expense,
             cat_parent_id = Some ''utilities'', cat_active = True \<rparr>,
           \<lparr> cat_id = ''salary'', cat_name = ''Salary'', cat_type = Income,
             cat_parent_id = None, cat_active = True \<rparr>,
           \<lparr> cat_id = ''freelance'', cat_name = ''Freelance'', cat_type = Income,
             cat_parent_id = None, cat_active = True \<rparr>,
           \<lparr> cat_id = ''investment'', cat_name = ''Investment Returns'', cat_type = Income,
             cat_parent_id = None, cat_active = True \<rparr> ],
       db_ledgers =
         [ \<lparr> led_id = ''checking'', led_name = ''Primary Checking'', led_type = ''checking'',
             led_balance = 2500, led_currency = ''USD'', led_active = True \<rparr>,
           \<lparr> led_id = ''savings'', led_name = ''Savings Account'', led_type = ''savings'',
             led_balance = 15000, led_currency = ''USD'', led_active = True \<rparr>,
           \<lparr> led_id = ''credit'', led_name = ''Credit Card'', led_type = ''credit'',
             led_balance = - 850, led_currency = ''USD'', led_active = True \<rparr>,
           \<lparr> led_id = ''cash'', led_name = ''Cash Wallet'', led_type = ''cash'',
             led_balance = 125, led_currency = ''USD'', led_active = True \<rparr> ],
       db_budgets =
         [ \<lparr> bud_id = ''budget_food'', bud_category_id = ''food'', bud_amount = 800,
             bud_period = ''monthly'', bud_start_date = ''2024-01-01'', bud_end_date = None,
             bud_active = True \<rparr>,
           \<lparr> bud_id = ''budget_transport'', bud_category_id = ''transport'', bud_amount = 300,
             bud_period = ''monthly'', bud_start_date = ''2024-01-01'', bud_end_date = None,
             bud_active = True \<rparr>,
           \<lparr> bud_id = ''budget_entertainment'', bud_category_id = ''entertainment'',
             bud_amount = 200, bud_period = ''monthly'', bud_start_date = ''2024-01-01'',
             bud_end_date = None, bud_active = True \<rparr>,
           \<lparr> bud_id = ''budget_utilities'', bud_category_id = ''utilities'', bud_amount = 400,
             bud_period = ''monthly'', bud_start_date = ''2024-01-01'', bud_end_date = None,
             bud_active = True \<rparr> ],
       db_transactions =
         [ \<lparr> txn_id = ''txn_001'', txn_type = Expense, txn_amount = 4599 / 100,
             txn_category_id = ''groceries'', txn_ledger_id = ''checking'',
             txn_description = ''Weekly grocery shopping'', txn_date = currentMonth @ ''-05'',
             txn_tags = ''weekly,essential'' \<rparr>,
           \<lparr> txn_id = ''txn_002'', txn_type = Expense, txn_amount = 2550 / 100,
             txn_category_id = ''gas'', txn_ledger_id = ''credit'',
             txn_description = ''Gas station fill-up'', txn_date = currentMonth @ ''-06'',
             txn_tags = ''fuel'' \<rparr>,
           \<lparr> txn_id = ''txn_003'', txn_type = Income, txn_amount = 3500,
             txn_category_id = ''salary'', txn_ledger_id = ''checking'',
             txn_description = ''Monthly salary deposit'', txn_date = currentMonth @ ''-01'',
             txn_tags = ''monthly,salary'' \<rparr>,
           \<lparr> txn_id = ''txn_004'', txn_type = Expense, txn_amount = 8999 / 100,
             txn_category_id = ''electricity'', txn_ledger_id = ''checking'',
             txn_description = ''Monthly electricity bill'', txn_date = currentMonth @ ''-03'',
             txn_tags = ''monthly,utility'' \<rparr>,
           \<lparr> txn_id = ''txn_005'', txn_type = Expense, txn_amount = 1250 / 100,
             txn_category_id = ''movies'', txn_ledger_id = ''cash'',
             txn_description = ''Movie theater tickets'', txn_date = currentMonth @ ''-08'',
             txn_tags = ''entertainment'' \<rparr>,
           \<lparr> txn_id = ''txn_006'', txn_type = Expense, txn_amount = 6734 / 100,
             txn_category_id = ''restaurants'', txn_ledger_id = ''credit'',
             txn_description = ''Dinner at Italian restaurant'', txn_date = currentMonth @ ''-10'',
             txn_tags = ''dining,date'' \<rparr>,
           \<lparr> txn_id = ''txn_007'', txn_type = Income, txn_amount = 750,
             txn_category_id = ''freelance'', txn_ledger_id = ''checking'',
             txn_description = ''Website design project'', txn_date = currentMonth @ ''-12'',
             txn_tags = ''freelance,project'' \<rparr>,
           \<lparr> txn_id = ''txn_008'', txn_type = Expense, txn_amount = 1999 / 100,
             txn_category_id = ''public_transport'', txn_ledger_id = ''checking'',
             txn_description = ''Monthly transit pass'', txn_date = currentMonth @ ''-02'',
             txn_tags = ''monthly,transport'' \<rparr> ] \<rparr>"

section \<open>Calendar days and \<open>strftime\<close>\<close>

text \<open>
  The date texts that the program stores are the ten characters \<open>YYYY-MM-DD\<close> that
  \<open>formatDate\<close> produces. \<open>parse_ymd\<close> reads such a text; it is \<open>None\<close> on every other
  text. SQLite's \<open>strftime\<close> is embedded for these texts and for the conversions that
  the program uses (\<open>%Y\<close>, \<open>%m\<close>, \<open>%d\<close>, \<open>%W\<close>), after SQLite's documentation:
  \<open>%W\<close> is the week of the year, 00 to 53, where week 01 starts on the first Monday.
  Like SQLite the model returns \<open>NULL\<close> (\<open>None\<close>) when it cannot read the date; the further
  time texts that SQLite reads (with a time of day, Julian day numbers, days past the end
  of the month) are outside the model.
\<close>

definition digit_of :: "char \<Rightarrow> nat option" where
  "digit_of c = (if c \<in> set ''0123456789'' then Some (of_char c - 48) else None)"

fun digits_of :: "nat \<Rightarrow> string \<Rightarrow> nat option" where
  "digits_of acc [] = Some acc"
| "digits_of acc (c # cs) =
     (case digit_of c of None \<Rightarrow> None | Some d \<Rightarrow> digits_of (10 * acc + d) cs)"

definition leap_year :: "nat \<Rightarrow> bool" where
  "leap_year y \<longleftrightarrow> (y mod 4 = 0 \<and> y mod 100 \<noteq> 0) \<or> y mod 400 = 0"

definition days_in_month :: "nat \<Rightarrow> nat \<Rightarrow> nat" where
  "days_in_month y m =
     (if m = 2 then (if leap_year y then 29 else 28)
      else if m = 4 \<or> m = 6 \<or> m = 9 \<or> m = 11 then 30 else 31)"

definition parse_ymd :: "string \<Rightarrow> (nat \<times> nat \<times> nat) option" where
  "parse_ymd s =
     (if length s = 10 \<and> s ! 4 = CHR ''-'' \<and> s ! 7 = CHR ''-'' then
        (case (digits_of 0 (take 4 s), digits_of 0 (take 2 (drop 5 s)), digits_of 0 (drop 8 s)) of
           (Some y, Some m, Some d) \<Rightarrow>
             if 1 \<le> m \<and> m \<le> 12 \<and> 1 \<le> d \<and> d \<le> days_in_month y m then Some (y, m, d)
             else None
         | _ \<Rightarrow> None)
      else None)"

text \<open>The day of the year, counted from 0, and the number of days from 0000-01-01 to the
  first day of the year \<open>y\<close> in the proleptic Gregorian calendar.\<close>

definition day_of_year :: "nat \<Rightarrow> nat \<Rightarrow> nat \<Rightarrow> nat" where
  "day_of_year y m d = sum_list (map (days_in_month y) [1..<m]) + d - 1"

definition days_before_year :: "nat \<Rightarrow> nat" where
  "days_before_year y = 365 * y + (y + 3) div 4 + (y + 399) div 400 - (y + 99) div 100"

text \<open>The day of the week, 0 for Monday to 6 for Sunday (0000-01-01 is a Saturday).\<close>

definition weekday :: "nat \<Rightarrow> nat \<Rightarrow> nat \<Rightarrow> nat" where
  "weekday y m d = (days_before_year y + day_of_year y m d + 5) mod 7"

definition pad2 :: "nat \<Rightarrow> string" where
  "pad2 n = [''0123456789'' ! (n div 10 mod 10), ''0123456789'' ! (n mod 10)]"

definition pad4 :: "nat \<Rightarrow> string" where
  "pad4 n = pad2 (n div 100) @ pad2 (n mod 100)"

text \<open>\<open>%W\<close> as SQLite computes it: \<open>(nDay + 7 - wd) / 7\<close> with the day of the year
  \<open>nDay\<close> counted from 0 and \<open>wd\<close> the day of the week counted from Monday.\<close>

definition week_of_year :: "nat \<Rightarrow> nat \<Rightarrow> nat \<Rightarrow> nat" where
  "week_of_year y m d = (day_of_year y m d + 7 - weekday y m d) div 7"

definition strftime_field :: "char \<Rightarrow> nat \<times> nat \<times> nat \<Rightarrow> string option" where
  "strftime_field f ymd =
     (case ymd of (y, m, d) \<Rightarrow>
        if f = CHR ''Y'' then Some (pad4 y)
        else if f = CHR ''m'' then Some (pad2 m)
        else if f = CHR ''d'' then Some (pad2 d)
        else if f = CHR ''W'' then Some (pad2 (week_of_year y m d))
        else None)"

fun strftime_ymd :: "string \<Rightarrow> nat \<times> nat \<times> nat \<Rightarrow> string option" where
  "strftime_ymd [] ymd = Some []"
| "strftime_ymd [c] ymd = (if c = CHR ''%'' then None else Some [c])"
| "strftime_ymd (c # f # cs) ymd =
     (if c = CHR ''%'' then
        (case strftime_field f ymd of
           None \<Rightarrow> None
         | Some s \<Rightarrow> map_option (\<lambda>r. s @ r) (strftime_ymd cs ymd))
      else map_option (\<lambda>r. c # r) (strftime_ymd (f # cs) ymd))"

definition strftime :: "string \<Rightarrow> string \<Rightarrow> string option" where
  "strftime fmt date = (case parse_ymd date of None \<Rightarrow> None | Some ymd \<Rightarrow> strftime_ymd fmt ymd)"

text \<open>
  The week of the year of ISO 8601, for comparison: weeks start on Monday and week 1 is
  the week that holds the first Thursday of the year, so that the first days of January
  can belong to week 52 or 53 of the year before and the last days of December to week 1
  of the year after.
\<close>

definition iso_weeks_in_year :: "nat \<Rightarrow> nat" where
  "iso_weeks_in_year y =
     (if weekday y 1 1 = 3 \<or> (leap_year y \<and> weekday y 1 1 = 2) then 53 else 52)"

definition iso_week :: "nat \<Rightarrow> nat \<Rightarrow> nat \<Rightarrow> nat" where
  "iso_week y m d =
     (let w = (day_of_year y m d + 10 - weekday y m d) div 7
      in if w = 0 then iso_weeks_in_year (y - 1)
         else if w = 53 \<and> iso_weeks_in_year y = 52 then 1
         else w)"

text \<open>The number of Mondays among the days of the year \<open>y\<close> from January 1 up to and
  including the day \<open>m\<close>/\<open>d\<close>.\<close>

definition mondays_upto :: "nat \<Rightarrow> nat \<Rightarrow> nat \<Rightarrow> nat" where
  "mondays_upto y m d =
     length (filter (\<lambda>k. (weekday y 1 1 + k) mod 7 = 0) [0..<Suc (day_of_year y m d)])"

section \<open>\<open>analyzeSpending\<close> (sqlite-adapter.js, lines 540 to 642)\<close>

record period_arg =
  p_start :: string
  p_end :: string
  p_grouping :: "string option"

record filters_arg =
  f_transaction_type :: "string option"
  f_categories :: "string list option"

text \<open>
  The \<open>WHERE\<close> clause shared by the first two analyses: the window, inclusive at both
  ends, and the condition \<open>t.type = ?\<close> that is added when \<open>filters.transaction_type\<close> is
  truthy (present and not the empty string).
\<close>

definition in_window :: "period_arg \<Rightarrow> txn \<Rightarrow> bool" where
  "in_window period t \<longleftrightarrow> p_start period \<le> txn_date t \<and> txn_date t \<le> p_end period"

definition type_matches :: "filters_arg \<Rightarrow> txn \<Rightarrow> bool" where
  "type_matches filters t \<longleftrightarrow>
     (case f_transaction_type filters of
        None \<Rightarrow> True
      | Some ty \<Rightarrow> ty = [] \<or> kind_text (txn_type t) = ty)"

text \<open>The condition \<open>t.category_id IN (...)\<close>, added when \<open>filters.categories\<close> is a
  non-empty array.\<close>

definition category_matches :: "filters_arg \<Rightarrow> txn \<Rightarrow> bool" where
  "category_matches filters t \<longleftrightarrow>
     (case f_categories filters of
        None \<Rightarrow> True
      | Some cs \<Rightarrow> cs = [] \<or> txn_category_id t \<in> set cs)"

text \<open>\<open>toFixed(2)\<close>: the nearest multiple of 1/100, the larger one on a tie, computed on
  the absolute value with the sign put back; the value of the decimal text it prints.\<close>

definition toFixed2 :: "rat \<Rightarrow> rat" where
  "toFixed2 x =
     (if x < 0 then - (of_int \<lfloor>(- x) * 100 + 1 / 2\<rfloor> / 100)
      else of_int \<lfloor>x * 100 + 1 / 2\<rfloor> / 100)"

subsection \<open>\<open>category_breakdown\<close>\<close>

record breakdown_row =
  br_category :: string
  br_category_id :: string
  br_type :: kind
  total_amount :: rat
  transaction_count :: nat
  avg_amount :: rat

record breakdown_item =
  bi_row :: breakdown_row
  percentage :: rat

record breakdown_result =
  breakdown :: "breakdown_item list"
  grand_total :: rat

text \<open>
  \<open>FROM transactions t JOIN categories c ON t.category_id = c.id WHERE ...\<close>: the pairs
  of a transaction and a category that the statement groups.
\<close>

definition breakdown_join :: "store \<Rightarrow> period_arg \<Rightarrow> filters_arg \<Rightarrow> (txn \<times> category) list" where
  "breakdown_join db period filters =
     concat (map (\<lambda>t. map (\<lambda>c. (t, c))
                          (filter (\<lambda>c. txn_category_id t = cat_id c) (db_categories db)))
                 (filter (\<lambda>t. in_window period t \<and> type_matches filters t
                              \<and> category_matches filters t)
                         (db_transactions db)))"

text \<open>\<open>GROUP BY c.id, c.name, c.type\<close> with the aggregates \<open>SUM\<close>, \<open>COUNT\<close> and \<open>AVG\<close>.\<close>

definition breakdown_key :: "txn \<times> category \<Rightarrow> string \<times> string \<times> kind" where
  "breakdown_key tc = (cat_id (snd tc), cat_name (snd tc), cat_type (snd tc))"

definition breakdown_group :: "(txn \<times> category) list \<Rightarrow> string \<times> string \<times> kind \<Rightarrow> breakdown_row" where
  "breakdown_group rows k =
     (let amounts = map (\<lambda>tc. txn_amount (fst tc)) (filter (\<lambda>tc. breakdown_key tc = k) rows)
      in \<lparr> br_category = fst (snd k), br_category_id = fst k, br_type = snd (snd k),
           total_amount = sum_list amounts,
           transaction_count = length amounts,
           avg_amount = sum_list amounts / of_nat (length amounts) \<rparr>)"

text \<open>\<open>ORDER BY total_amount DESC\<close>. The order that SQLite gives to groups of equal total
  is not specified; the model keeps them in the order of their first rows.\<close>

definition breakdown_query :: "store \<Rightarrow> period_arg \<Rightarrow> filters_arg \<Rightarrow> breakdown_row list" where
  "breakdown_query db period filters =
     (let rows = breakdown_join db period filters
      in sort_key (\<lambda>g. - total_amount g)
           (map (breakdown_group rows) (remdups (map breakdown_key rows))))"

definition category_breakdown :: "store \<Rightarrow> period_arg \<Rightarrow> filters_arg \<Rightarrow> breakdown_result" where
  "category_breakdown db period filters =
     (let breakdown = breakdown_query db period filters;
          total = foldl (\<lambda>sum item. sum + total_amount item) 0 breakdown;
          result = map (\<lambda>item. \<lparr> bi_row = item,
                                   percentage = (if total > 0
                                                 then toFixed2 (total_amount item / total * 100)
                                                 else 0) \<rparr>) breakdown
      in \<lparr> breakdown = result, grand_total = total \<rparr>)"

subsection \<open>\<open>time_trend\<close>\<close>

record trend_row =
  tr_period :: "string option"
  expenses :: rat
  income :: rat
  tr_transaction_count :: nat

record trend_result =
  trends :: "trend_row list"
  tr_grouping :: string

definition dateFormat :: "string \<Rightarrow> string" where
  "dateFormat g =
     (if g = ''day'' then ''%Y-%m-%d''
      else if g = ''week'' then ''%Y-%W''
      else if g = ''month'' then ''%Y-%m''
      else ''%Y-%m'')"

text \<open>\<open>GROUP BY period ORDER BY period\<close>: one row for each value of
  \<open>strftime(dateFormat, t.date)\<close>, in ascending order, \<open>NULL\<close> first.\<close>

definition trend_group :: "string \<Rightarrow> txn list \<Rightarrow> string option \<Rightarrow> trend_row" where
  "trend_group fmt rows k =
     (let grp = filter (\<lambda>t. strftime fmt (txn_date t) = k) rows
      in \<lparr> tr_period = k,
           expenses = sum_list (map (\<lambda>t. if txn_type t = Expense then txn_amount t else 0) grp),
           income = sum_list (map (\<lambda>t. if txn_type t = Income then txn_amount t else 0) grp),
           tr_transaction_count = length grp \<rparr>)"

definition time_trend :: "store \<Rightarrow> period_arg \<Rightarrow> filters_arg \<Rightarrow> trend_result" where
  "time_trend db period filters =
     (let grouping = (case p_grouping period of None \<Rightarrow> ''month'' | Some g \<Rightarrow> g);
          fmt = dateFormat grouping;
          rows = filter (\<lambda>t. in_window period t \<and> type_matches filters t) (db_transactions db);
          trends = map (trend_group fmt rows)
                     (sort (remdups (map (\<lambda>t. strftime fmt (txn_date t)) rows)))
      in \<lparr> trends = trends, tr_grouping = grouping \<rparr>)"

subsection \<open>\<open>budget_variance\<close>\<close>

record variance_row =
  budget_id :: string
  budgeted_amount :: rat
  budget_period :: string
  category_name :: string
  var_category_id :: string
  actual_amount :: rat

record variance_item =
  vi_row :: variance_row
  variance :: rat
  variance_percentage :: rat
  status :: string

text \<open>
  \<open>FROM budgets b JOIN categories c ON b.category_id = c.id ... WHERE b.active = 1\<close>, and
  for each such pair the transactions that the \<open>LEFT JOIN\<close> attaches: those of the
  category, in the window, of type expense.
\<close>

definition variance_join :: "store \<Rightarrow> (budget \<times> category) list" where
  "variance_join db =
     concat (map (\<lambda>b. map (\<lambda>c. (b, c))
                          (filter (\<lambda>c. bud_category_id b = cat_id c) (db_categories db)))
                 (filter bud_active (db_budgets db)))"

definition variance_matched :: "store \<Rightarrow> period_arg \<Rightarrow> category \<Rightarrow> txn list" where
  "variance_matched db period c =
     filter (\<lambda>t. txn_category_id t = cat_id c \<and> in_window period t \<and> txn_type t = Expense)
            (db_transactions db)"

definition variance_key :: "budget \<times> category \<Rightarrow> string \<times> rat \<times> string \<times> string \<times> string" where
  "variance_key bc =
     (bud_id (fst bc), bud_amount (fst bc), bud_period (fst bc), cat_name (snd bc), cat_id (snd bc))"

text \<open>\<open>GROUP BY b.id, b.amount, b.period, c.name, c.id\<close> with
  \<open>COALESCE(SUM(t.amount), 0)\<close>: the sum over the transactions attached to the pairs of
  the group, 0 when there is none.\<close>

definition variance_group ::
  "store \<Rightarrow> period_arg \<Rightarrow> (budget \<times> category) list
     \<Rightarrow> string \<times> rat \<times> string \<times> string \<times> string \<Rightarrow> variance_row" where
  "variance_group db period pairs k =
     (case k of (bid, amount, per, cname, cid) \<Rightarrow>
        \<lparr> budget_id = bid, budgeted_amount = amount, budget_period = per,
          category_name = cname, var_category_id = cid,
          actual_amount =
            sum_list (map txn_amount
              (concat (map (\<lambda>bc. variance_matched db period (snd bc))
                           (filter (\<lambda>bc. variance_key bc = k) pairs)))) \<rparr>)"

definition variance_query :: "store \<Rightarrow> period_arg \<Rightarrow> variance_row list" where
  "variance_query db period =
     (let pairs = variance_join db
      in map (variance_group db period pairs) (remdups (map variance_key pairs)))"

definition budget_variance :: "store \<Rightarrow> period_arg \<Rightarrow> variance_item list" where
  "budget_variance db period =
     map (\<lambda>item.
            \<lparr> vi_row = item,
              variance = actual_amount item - budgeted_amount item,
              variance_percentage =
                (if budgeted_amount item > 0
                 then toFixed2 ((actual_amount item - budgeted_amount item)
                                  / budgeted_amount item * 100)
                 else 0),
              status = (if actual_amount item > budgeted_amount item then ''over'' else ''under'') \<rparr>)
         (variance_query db period)"

subsection \<open>The dispatch on \<open>analysisType\<close>\<close>

datatype analysis =
    Breakdown breakdown_result
  | Trend trend_result
  | Variance "variance_item list" period_arg

definition analyzeSpending ::
  "store \<Rightarrow> string \<Rightarrow> period_arg \<Rightarrow> filters_arg \<Rightarrow> error + analysis" where
  "analyzeSpending db analysisType period filters =
     (if analysisType = ''category_breakdown'' then Inr (Breakdown (category_breakdown db period filters))
      else if analysisType = ''time_trend'' then Inr (Trend (time_trend db period filters))
      else if analysisType = ''budget_variance'' then Inr (Variance (budget_variance db period) period)
      else Inl (Error (''Unknown analysis_type: '' @ analysisType)))"

section \<open>\<open>batchCreateTransactions\<close> (sqlite-adapter.js, lines 355 to 433)\<close>

text \<open>
  An element of the input array, with the fields of the tool's input schema; a field the
  caller left out is \<open>None\<close>.
\<close>

record txn_input =
  in_type :: "string option"
  in_amount :: "rat option"
  in_category :: "string option"
  in_description :: "string option"
  in_date :: "string option"
  in_ledger_id :: "string option"
  in_tags :: "string list option"

text \<open>
  What the function reads from the JavaScript runtime: the current day
  (\<open>new Date().toISOString().slice(0, 10)\<close>), the conversion
  \<open>new Date(s).toISOString().slice(0, 10)\<close> of a date text \<open>s\<close>, which is \<open>None\<close> where
  the \<open>Date\<close> is invalid and \<open>toISOString\<close> throws a \<open>RangeError\<close>, and the identifiers that
  the successive calls of \<open>generateId('txn')\<close> return.
\<close>

record env =
  env_today :: string
  env_toISODate :: "string \<Rightarrow> string option"
  env_generateId :: "nat \<Rightarrow> string"

text \<open>helpers.js, \<open>validateTransaction\<close>. The negation \<open>!x\<close> of JavaScript holds for
  \<open>undefined\<close>, for the empty string and for the number 0.\<close>

definition validateTransaction :: "txn_input \<Rightarrow> string list" where
  "validateTransaction t =
     (case in_type t of
        None \<Rightarrow> [''Invalid transaction type'']
      | Some ty \<Rightarrow> if ty = [] \<or> ty \<notin> set [''income'', ''expense'']
                   then [''Invalid transaction type''] else [])
     @ (case in_amount t of
          None \<Rightarrow> [''Invalid amount'']
        | Some a \<Rightarrow> if a = 0 \<or> a \<le> 0 then [''Invalid amount''] else [])
     @ (case in_category t of
          None \<Rightarrow> [''Category is required'']
        | Some c \<Rightarrow> if c = [] then [''Category is required''] else [])"

text \<open>helpers.js, \<open>formatDate\<close>.\<close>

definition formatDate :: "env \<Rightarrow> string option \<Rightarrow> error + string" where
  "formatDate e date =
     (case date of
        None \<Rightarrow> Inr (env_today e)
      | Some d \<Rightarrow>
          if d = [] then Inr (env_today e)
          else (case env_toISODate e d of
                  None \<Rightarrow> Inl (Error ''Invalid time value'')
                | Some day \<Rightarrow> Inr day))"

text \<open>The \<open>INSERT INTO transactions\<close> of line 392: the primary key \<open>id\<close> must be new.\<close>

definition insert_transaction :: "store \<Rightarrow> txn \<Rightarrow> error + store" where
  "insert_transaction db row =
     (if txn_id row \<in> set (map txn_id (db_transactions db))
      then Inl (Error ''SQLITE_CONSTRAINT: UNIQUE constraint failed: transactions.id'')
      else Inr (db\<lparr>db_transactions := db_transactions db @ [row]\<rparr>))"

record result_item =
  res_index :: nat
  res_status :: string
  res_transaction_id :: "string option"
  res_transaction :: txn_input

record error_item =
  err_index :: nat
  err_error :: string
  err_transaction :: txn_input

record batch_summary =
  sm_total :: nat
  sm_successful :: nat
  sm_failed :: nat
  sm_validate_only :: bool

record batch_result =
  results :: "result_item list"
  errors :: "error_item list"
  summary :: batch_summary

text \<open>
  The state of the loop: the store, the number of identifiers generated so far, and the
  two arrays \<open>results\<close> and \<open>errors\<close>.
\<close>

record batch_state =
  bs_store :: store
  bs_ids :: nat
  bs_results :: "result_item list"
  bs_errors :: "error_item list"

text \<open>
  Lines 366 to 380, the checks at the head of the \<open>try\<close> block: the message of the error
  thrown, or the category id and the ledger id that the rest of the block uses.
\<close>

definition ledger_or_default :: "txn_input \<Rightarrow> string" where
  "ledger_or_default t =
     (case in_ledger_id t of None \<Rightarrow> ''checking'' | Some l \<Rightarrow> if l = [] then ''checking'' else l)"

definition check_item :: "store \<Rightarrow> txn_input \<Rightarrow> error + (string \<times> string)" where
  "check_item db t =
     (let validationErrors = validateTransaction t;
          cat = (case in_category t of None \<Rightarrow> [] | Some c \<Rightarrow> c);
          ledger_id = ledger_or_default t
      in if validationErrors \<noteq> [] then Inl (Error (join '', '' validationErrors))
         else (case get_category db cat of
                 None \<Rightarrow> Inl (Error (''Category not found: '' @ cat))
               | Some category \<Rightarrow>
                   (case get_ledger db ledger_id of
                      None \<Rightarrow> Inl (Error (''Ledger not found: '' @ ledger_id))
                    | Some ledger \<Rightarrow> Inr (cat, ledger_id))))"

text \<open>
  Lines 389 to 412, the branch that persists the element: the new store, the new number
  of generated identifiers, and the error thrown or the element pushed on \<open>results\<close>. The
  arguments of the \<open>INSERT\<close> are evaluated in the order of the source: \<open>generateId\<close> has
  been called when \<open>formatDate\<close> throws.
\<close>

definition create_item ::
  "env \<Rightarrow> store \<Rightarrow> nat \<Rightarrow> nat \<Rightarrow> txn_input \<Rightarrow> string \<Rightarrow> string
     \<Rightarrow> store \<times> nat \<times> (error + result_item)" where
  "create_item e db k i t cat ledger_id =
     (let transaction_id = env_generateId e k;
          tags = (case in_tags t of None \<Rightarrow> [] | Some ts \<Rightarrow> join '','' ts)
      in
      (case formatDate e (in_date t) of
        Inl err \<Rightarrow> (db, Suc k, Inl err)
      | Inr date \<Rightarrow>
          (case kind_of_text (case in_type t of None \<Rightarrow> [] | Some ty \<Rightarrow> ty) of
             None \<Rightarrow> (db, Suc k, Inl (Error ''SQLITE_CONSTRAINT: CHECK constraint failed: type''))
           | Some ty \<Rightarrow>
               (case insert_transaction db
                       \<lparr> txn_id = transaction_id, txn_type = ty,
                         txn_amount = (case in_amount t of None \<Rightarrow> 0 | Some a \<Rightarrow> a),
                         txn_category_id = cat, txn_ledger_id = ledger_id,
                         txn_description = (case in_description t of None \<Rightarrow> [] | Some d \<Rightarrow> d),
                         txn_date = date, txn_tags = tags \<rparr> of
                  Inl err \<Rightarrow> (db, Suc k, Inl err)
                | Inr db' \<Rightarrow>
                    (db', Suc k,
                     Inr \<lparr> res_index = i, res_status = ''created'',
                           res_transaction_id = Some transaction_id,
                           res_transaction = t \<rparr>)))))"

text \<open>The whole \<open>try\<close> block for the element \<open>t\<close> at index \<open>i\<close>.\<close>

definition try_item ::
  "env \<Rightarrow> bool \<Rightarrow> store \<Rightarrow> nat \<Rightarrow> nat \<Rightarrow> txn_input \<Rightarrow> store \<times> nat \<times> (error + result_item)" where
  "try_item e validateOnly db k i t =
     (case check_item db t of
        Inl err \<Rightarrow> (db, k, Inl err)
      | Inr (cat, ledger_id) \<Rightarrow>
          if validateOnly then
            (db, k, Inr \<lparr> res_index = i, res_status = ''valid'',
                         res_transaction_id = None, res_transaction = t \<rparr>)
          else create_item e db k i t cat ledger_id)"

text \<open>One turn of the \<open>for\<close> loop: the \<open>try\<close> block, and the \<open>catch\<close> that records the
  error at the index of the element.\<close>

definition batch_step :: "env \<Rightarrow> bool \<Rightarrow> nat \<Rightarrow> txn_input \<Rightarrow> batch_state \<Rightarrow> batch_state" where
  "batch_step e validateOnly i t st =
     (case try_item e validateOnly (bs_store st) (bs_ids st) i t of
        (db', k', Inl (Error msg)) \<Rightarrow>
          st\<lparr> bs_store := db', bs_ids := k',
              bs_errors := bs_errors st @ [\<lparr> err_index = i, err_error = msg, err_transaction = t \<rparr>] \<rparr>
      | (db', k', Inr r) \<Rightarrow>
          st\<lparr> bs_store := db', bs_ids := k', bs_results := bs_results st @ [r] \<rparr>)"

fun batch_loop :: "env \<Rightarrow> bool \<Rightarrow> nat \<Rightarrow> txn_input list \<Rightarrow> batch_state \<Rightarrow> batch_state" where
  "batch_loop e validateOnly i [] st = st"
| "batch_loop e validateOnly i (t # ts) st =
     batch_loop e validateOnly (Suc i) ts (batch_step e validateOnly i t st)"

text \<open>The function returns its report; the store it leaves behind is the second
  component.\<close>

definition batchCreateTransactions ::
  "env \<Rightarrow> store \<Rightarrow> txn_input list \<Rightarrow> bool \<Rightarrow> batch_result \<times> store" where
  "batchCreateTransactions e db txns validateOnly =
     (let st = batch_loop e validateOnly 0 txns
                 \<lparr> bs_store = db, bs_ids = 0, bs_results = [], bs_errors = [] \<rparr>
      in (\<lparr> results = bs_results st, errors = bs_errors st,
            summary = \<lparr> sm_total = length txns,
                        sm_successful = length (bs_results st),
                        sm_failed = length (bs_errors st),
                        sm_validate_only = validateOnly \<rparr> \<rparr>,
          bs_store st))"

section \<open>\<open>getRecordDetails\<close> (sqlite-methods.js, lines 116 to 209)\<close>

record joined_txn =
  jt_transaction :: txn
  jt_category_name :: string
  jt_category_type :: kind
  jt_ledger_name :: string
  jt_ledger_type :: string

record related_txn =
  rt_transaction :: txn
  rt_category_name :: string

record joined_budget =
  jb_budget :: budget
  jb_category_name :: string
  jb_category_type :: kind

record daily_total =
  dt_date :: "string option"
  dt_daily_total :: rat

text \<open>The value returned: the entity under its key (\<open>transaction\<close>, \<open>ledger\<close> or \<open>budget\<close>)
  and, when \<open>includeRelated\<close> holds, the related rows.\<close>

datatype record_details =
    TransactionDetails joined_txn "related_txn list option"
  | LedgerDetails ledger "related_txn list option"
  | BudgetDetails joined_budget "daily_total list option"

text \<open>\<open>FROM transactions t JOIN categories c ON t.category_id = c.id JOIN ledgers l ON
  t.ledger_id = l.id WHERE t.id = ?\<close>.\<close>

definition transaction_rows :: "store \<Rightarrow> string \<Rightarrow> joined_txn list" where
  "transaction_rows db recordId =
     concat (map (\<lambda>t.
       concat (map (\<lambda>c.
         map (\<lambda>l. \<lparr> jt_transaction = t, jt_category_name = cat_name c,
                     jt_category_type = cat_type c, jt_ledger_name = led_name l,
                     jt_ledger_type = led_type l \<rparr>)
             (filter (\<lambda>l. txn_ledger_id t = led_id l) (db_ledgers db)))
         (filter (\<lambda>c. txn_category_id t = cat_id c) (db_categories db))))
       (filter (\<lambda>t. txn_id t = recordId) (db_transactions db)))"

text \<open>\<open>FROM transactions t JOIN categories c ON t.category_id = c.id WHERE ... ORDER BY
  t.date DESC LIMIT n\<close>, for the two lists of related transactions. The order among
  rows of the same date is not specified by SQLite.\<close>

definition related_rows :: "store \<Rightarrow> (txn \<Rightarrow> bool) \<Rightarrow> nat \<Rightarrow> related_txn list" where
  "related_rows db cond n =
     take n (rev (sort_key (\<lambda>r. txn_date (rt_transaction r))
       (concat (map (\<lambda>t. map (\<lambda>c. \<lparr> rt_transaction = t, rt_category_name = cat_name c \<rparr>)
                              (filter (\<lambda>c. txn_category_id t = cat_id c) (db_categories db)))
                    (filter cond (db_transactions db))))))"

text \<open>\<open>FROM budgets b JOIN categories c ON b.category_id = c.id WHERE b.id = ?\<close>.\<close>

definition budget_rows :: "store \<Rightarrow> string \<Rightarrow> joined_budget list" where
  "budget_rows db recordId =
     concat (map (\<lambda>b. map (\<lambda>c. \<lparr> jb_budget = b, jb_category_name = cat_name c,
                                  jb_category_type = cat_type c \<rparr>)
                          (filter (\<lambda>c. bud_category_id b = cat_id c) (db_categories db)))
                 (filter (\<lambda>b. bud_id b = recordId) (db_budgets db)))"

text \<open>The daily spending of the current month for the category of a budget:
  \<open>GROUP BY DATE(t.date) ORDER BY t.date DESC\<close>, where \<open>DATE\<close> is \<open>strftime\<close> with
  \<open>%Y-%m-%d\<close> and the date that orders a group is that of its first row.\<close>

definition monthly_spending :: "store \<Rightarrow> string \<Rightarrow> string \<Rightarrow> daily_total list" where
  "monthly_spending db cat currentMonth =
     (let rows = filter (\<lambda>t. txn_category_id t = cat \<and> txn_type t = Expense
                            \<and> currentMonth @ ''-01'' \<le> txn_date t
                            \<and> txn_date t \<le> currentMonth @ ''-31'')
                        (db_transactions db);
          day = (\<lambda>t. strftime ''%Y-%m-%d'' (txn_date t));
          firsts = rev (sort_key txn_date
                     (map (\<lambda>k. hd (filter (\<lambda>t. day t = k) rows)) (remdups (map day rows))))
      in map (\<lambda>f. \<lparr> dt_date = day f,
                      dt_daily_total = sum_list (map txn_amount (filter (\<lambda>t. day t = day f) rows)) \<rparr>)
             firsts)"

text \<open>\<open>dbGet\<close> returns the first row of a statement, \<open>undefined\<close> when there is none.\<close>

definition getRecordDetails ::
  "env \<Rightarrow> store \<Rightarrow> string \<Rightarrow> string \<Rightarrow> bool \<Rightarrow> error + record_details" where
  "getRecordDetails e db recordType recordId includeRelated =
     (if recordType = ''transaction'' then
        (case transaction_rows db recordId of
           [] \<Rightarrow> Inl (Error (''Transaction not found: '' @ recordId))
         | transaction # _ \<Rightarrow>
             Inr (TransactionDetails transaction
                    (if includeRelated
                     then Some (related_rows db
                            (\<lambda>t. txn_category_id t = txn_category_id (jt_transaction transaction)
                                  \<and> txn_id t \<noteq> recordId) 5)
                     else None)))
      else if recordType = ''ledger_record'' then
        (case get_ledger db recordId of
           None \<Rightarrow> Inl (Error (''Ledger not found: '' @ recordId))
         | Some ledger \<Rightarrow>
             Inr (LedgerDetails ledger
                    (if includeRelated
                     then Some (related_rows db (\<lambda>t. txn_ledger_id t = recordId) 10)
                     else None)))
      else if recordType = ''budget_snapshot'' then
        (case budget_rows db recordId of
           [] \<Rightarrow> Inl (Error (''Budget not found: '' @ recordId))
         | budget # _ \<Rightarrow>
             Inr (BudgetDetails budget
                    (if includeRelated
                     then Some (monthly_spending db (bud_category_id (jb_budget budget))
                                  (take 7 (env_today e)))
                     else None)))
      else Inl (Error (''Unknown record_type: '' @ recordType)))"

section \<open>CSV export: \<open>formatExportData\<close>, case \<open>csv\<close> (helpers.js, lines 293 to 309)\<close>

text \<open>
  A flat record is a JavaScript object whose values are primitive: the list of its own
  properties in the order of \<open>Object.keys\<close>. \<open>row[header]\<close> reads an own property and is
  \<open>undefined\<close> when the record has none of that name; the names that every object
  inherits from \<open>Object.prototype\<close> (\<open>constructor\<close>, \<open>toString\<close>, ...) are assumed not to
  be used as column names. \<open>Number.prototype.toString\<close> belongs to the runtime and is the
  parameter \<open>show_num\<close>.
\<close>

datatype jsval = JNull | JBool bool | JNum rat | JStr string

type_synonym jsrow = "(string \<times> jsval) list"

text \<open>The argument \<open>data\<close>: an array of records, or an object that is not an array (the
  summary report and the full backup), of which this case reads nothing.\<close>

datatype export_data = DataArray "jsrow list" | DataObject

definition dquote :: char where
  "dquote = CHR 0x22"

definition newline :: char where
  "newline = CHR 0x0A"

text \<open>\<open>row[header] || ''\<close> followed by \<open>toString()\<close>: \<open>undefined\<close>, \<open>null\<close>, \<open>false\<close>, 0 and
  the empty string give the empty string.\<close>

definition cell_text :: "(rat \<Rightarrow> string) \<Rightarrow> jsrow \<Rightarrow> string \<Rightarrow> string" where
  "cell_text show_num row header =
     (case map_of row header of
        None \<Rightarrow> []
      | Some JNull \<Rightarrow> []
      | Some (JBool b) \<Rightarrow> (if b then ''true'' else [])
      | Some (JNum n) \<Rightarrow> (if n = 0 then [] else show_num n)
      | Some (JStr s) \<Rightarrow> s)"

text \<open>\<open>replace(/"/g, '""')\<close>.\<close>

definition double_quotes :: "string \<Rightarrow> string" where
  "double_quotes s = concat (map (\<lambda>c. if c = dquote then [dquote, dquote] else [c]) s)"

definition csv_cell :: "(rat \<Rightarrow> string) \<Rightarrow> jsrow \<Rightarrow> string \<Rightarrow> string" where
  "csv_cell show_num row header = dquote # double_quotes (cell_text show_num row header) @ [dquote]"

definition formatExportData_csv :: "(rat \<Rightarrow> string) \<Rightarrow> export_data \<Rightarrow> error + string" where
  "formatExportData_csv show_num data =
     (case data of
        DataObject \<Rightarrow> Inl (Error ''CSV format requires array data'')
      | DataArray [] \<Rightarrow> Inr []
      | DataArray (first # rest) \<Rightarrow>
          (let headers = map fst first;
               csvHeaders = join '','' headers;
               csvRows = map (\<lambda>row. join '','' (map (csv_cell show_num row) headers)) (first # rest)
           in Inr (join [newline] (csvHeaders # csvRows))))"

text \<open>handlers.js, \<open>handleToolRequest\<close>: the text of the response, which for a caught error
  is its message after \<open>Error: \<close>.\<close>

definition response_text :: "error + string \<Rightarrow> string" where
  "response_text r = (case r of Inl (Error msg) \<Rightarrow> ''Error: '' @ msg | Inr text \<Rightarrow> text)"

text \<open>What a reader of CSV does with the body of a quoted field: every pair of quotes
  stands for one quote.\<close>

fun undouble_quotes :: "string \<Rightarrow> string" where
  "undouble_quotes (a # b # cs) =
     (if a = dquote \<and> b = dquote then a # undouble_quotes cs else a # undouble_quotes (b # cs))"
| "undouble_quotes cs = cs"

section \<open>\<open>buildCategoryTree\<close> (helpers.js, lines 183 to 200)\<close>

text \<open>
  The function fills the object \<open>tree\<close>, which maps a category id to a node object, and
  the array \<open>roots\<close>; a node holds the fields of its category and the array \<open>children\<close>.
  \<open>children\<close> and \<open>roots\<close> hold references to node objects, and a node object is shared by
  every array it was pushed on. In the model a reference is the key of the node in
  \<open>tree\<close>, and the function returns \<open>roots\<close> together with \<open>tree\<close>, the store of the nodes
  that the references point to.

  \<open>tree\<close> is created as \<open>{}\<close> and inherits the properties of \<open>Object.prototype\<close>: reading
  \<open>tree[k]\<close> for a key \<open>k\<close> that was never stored gives \<open>undefined\<close>, except for the
  inherited names, where it gives a function or object that has no \<open>children\<close>, so that
  \<open>tree[k].children.push\<close> throws a \<open>TypeError\<close>. An id equal to \<open>__proto__\<close> would replace
  the prototype instead of storing a property; such ids are outside the model.
\<close>

record tree_node =
  node_category :: category
  children :: "string list"

type_synonym tree_object = "string \<Rightarrow> tree_node option"

record built_tree =
  bt_roots :: "string list"
  bt_tree :: tree_object

definition prototype_names :: "string list" where
  "prototype_names =
     [''constructor'', ''__defineGetter__'', ''__defineSetter__'', ''hasOwnProperty'',
      ''__lookupGetter__'', ''__lookupSetter__'', ''isPrototypeOf'', ''propertyIsEnumerable'',
      ''toString'', ''valueOf'', ''__proto__'', ''toLocaleString'']"

datatype property = Own tree_node | Inherited | Undefined

definition tree_get :: "tree_object \<Rightarrow> string \<Rightarrow> property" where
  "tree_get tree k =
     (case tree k of
        Some node \<Rightarrow> Own node
      | None \<Rightarrow> if k \<in> set prototype_names then Inherited else Undefined)"

text \<open>The first \<open>forEach\<close>: \<open>tree[cat.id] = { ...cat, children: [] }\<close>.\<close>

definition add_node :: "category \<Rightarrow> tree_object \<Rightarrow> tree_object" where
  "add_node cat tree = tree (cat_id cat \<mapsto> \<lparr> node_category = cat, children = [] \<rparr>)"

text \<open>The body of the second \<open>forEach\<close>. The condition \<open>cat.parent_id && tree[cat.parent_id]\<close>
  fails for \<open>null\<close>, for the empty string and for a key that gives \<open>undefined\<close>.\<close>

definition attach :: "category \<Rightarrow> built_tree \<Rightarrow> error + built_tree" where
  "attach cat b =
     (case cat_parent_id cat of
        None \<Rightarrow> Inr (b \<lparr> bt_roots := bt_roots b @ [cat_id cat] \<rparr>)
      | Some p \<Rightarrow>
          if p = [] then Inr (b \<lparr> bt_roots := bt_roots b @ [cat_id cat] \<rparr>)
          else (case tree_get (bt_tree b) p of
                  Own node \<Rightarrow>
                    Inr (b \<lparr> bt_tree := (bt_tree b)
                               (p \<mapsto> node \<lparr> children := children node @ [cat_id cat] \<rparr>) \<rparr>)
                | Inherited \<Rightarrow> Inl (Error ''TypeError: Cannot read properties of undefined'')
                | Undefined \<Rightarrow> Inr (b \<lparr> bt_roots := bt_roots b @ [cat_id cat] \<rparr>)))"

fun attach_all :: "category list \<Rightarrow> built_tree \<Rightarrow> error + built_tree" where
  "attach_all [] b = Inr b"
| "attach_all (cat # cats) b =
     (case attach cat b of Inl err \<Rightarrow> Inl err | Inr b' \<Rightarrow> attach_all cats b')"

definition buildCategoryTree :: "category list \<Rightarrow> error + built_tree" where
  "buildCategoryTree categories =
     attach_all categories \<lparr> bt_roots = [], bt_tree = fold add_node categories Map.empty \<rparr>"







section \<open>Sample inputs\<close>


definition no_filters :: filters_arg where
  "no_filters = \<lparr> f_transaction_type = None, f_categories = None \<rparr>"


definition sample_env :: env where
  "sample_env =
     \<lparr> env_today = ''2024-01-15'',
       env_toISODate = (\<lambda>s. case parse_ymd s of None \<Rightarrow> None | Some ymd \<Rightarrow> Some s),
       env_generateId = (\<lambda>n. ''txn_new_'' @ pad4 n) \<rparr>"

definition sample_item :: txn_input where
  "sample_item =
     \<lparr> in_type = Some ''expense'', in_amount = Some (25 / 2), in_category = Some ''groceries'',
       in_description = Some ''Bread'', in_date = Some ''2024-01-09'', in_ledger_id = None,
       in_tags = Some [''weekly''] \<rparr>"

definition sample_batch :: "txn_input list" where
  "sample_batch =
     [ sample_item \<lparr> in_type := None, in_amount := Some 0 \<rparr>,
       sample_item,
       sample_item \<lparr> in_category := Some ''pets'' \<rparr>,
       sample_item \<lparr> in_ledger_id := Some ''paypal'' \<rparr>,
       sample_item \<lparr> in_type := Some ''income'', in_category := Some ''salary'' \<rparr> ]"


definition bad_date_item :: txn_input where
  "bad_date_item = sample_item \<lparr> in_date := Some ''not-a-date'' \<rparr>"

definition weekly :: "string \<Rightarrow> string \<Rightarrow> period_arg" where
  "weekly a b = \<lparr> p_start = a, p_end = b, p_grouping = Some ''week'' \<rparr>"

definition new_year_store :: store where
  "new_year_store = (seedData ''2021-01'')
     \<lparr> db_transactions :=
         [ \<lparr> txn_id = ''txn_ny'', txn_type = Expense, txn_amount = 20,
             txn_category_id = ''groceries'', txn_ledger_id = ''checking'',
             txn_description = ''Brunch'', txn_date = ''2021-01-01'', txn_tags = [] \<rparr> ] \<rparr>"

definition two_weeks_store :: store where
  "two_weeks_store = (seedData ''2024-01'')
     \<lparr> db_transactions :=
         [ \<lparr> txn_id = ''txn_a'', txn_type = Expense, txn_amount = 20,
             txn_category_id = ''groceries'', txn_ledger_id = ''checking'',
             txn_description = ''Market'', txn_date = ''2024-01-07'', txn_tags = [] \<rparr>,
           \<lparr> txn_id = ''txn_b'', txn_type = Income, txn_amount = 50,
             txn_category_id = ''freelance'', txn_ledger_id = ''checking'',
             txn_description = ''Invoice'', txn_date = ''2024-01-08'', txn_tags = [] \<rparr>,
           \<lparr> txn_id = ''txn_c'', txn_type = Expense, txn_amount = 5,
             txn_category_id = ''groceries'', txn_ledger_id = ''cash'',
             txn_description = ''Bread'', txn_date = ''2024-01-09'', txn_tags = [] \<rparr> ] \<rparr>"

definition sample_rows :: "jsrow list" where
  "sample_rows =
     [ [ (''id'', JStr ''txn_001''), (''amount'', JNum (4599 / 100)),
         (''description'', JStr [CHR ''a'', dquote, CHR ''b'', dquote]), (''tags'', JNull) ],
       [ (''id'', JStr ''txn_002''), (''amount'', JNum 0), (''description'', JStr ''Fuel'') ] ]"

definition sample_show_num :: "rat \<Rightarrow> string" where
  "sample_show_num n = (if n = 4599 / 100 then ''45.99'' else ''?'')"


definition inherited_parent :: "category list" where
  "inherited_parent =
     [ \<lparr> cat_id = ''misc'', cat_name = ''Misc'', cat_type = Expense,
         cat_parent_id = Some ''constructor'', cat_active = True \<rparr> ]"





text \<open>The multiset of indices held by the two arrays of the loop.\<close>

definition batch_indices :: "batch_state \<Rightarrow> nat list" where
  "batch_indices st = map res_index (bs_results st) @ map err_index (bs_errors st)"

section \<open>Theorems\<close>

subsection \<open>Pagination\<close>

text \<open>
  C3. For every total matching count T (the number of rows the assembled statement
  selects), every requested page P and every requested limit L, the pagination metadata
  returned by \<open>queryTransactions\<close> reports T as the total, P as the page and
  \<open>min L 100\<close> as the effective limit, and \<open>has_next\<close> is true if and only if
  P times the effective limit is less than T. In particular a requested limit of 500
  gives the effective limit 100.
\<close>

theorem queryTransactions_pagination:
  "total (pagination (queryTransactions matching \<lparr> arg_page = Some P, arg_limit = Some L \<rparr>))
     = int (length matching)
   \<and> page (pagination (queryTransactions matching \<lparr> arg_page = Some P, arg_limit = Some L \<rparr>)) = P
   \<and> limit (pagination (queryTransactions matching \<lparr> arg_page = Some P, arg_limit = Some L \<rparr>))
     = min L 100
   \<and> (has_next (pagination (queryTransactions matching \<lparr> arg_page = Some P, arg_limit = Some L \<rparr>))
        \<longleftrightarrow> P * min L 100 < int (length matching))
   \<and> limit (pagination (queryTransactions matching \<lparr> arg_page = Some P, arg_limit = Some 500 \<rparr>))
     = 100"
  by (simp add: queryTransactions_def Let_def)

subsection \<open>Rounding to two decimals\<close>

lemma foldl_add_sum_list:
  "foldl (\<lambda>s x. s + f x) a xs = a + sum_list (map f xs)" for a :: rat
  by (induction xs arbitrary: a) (simp_all add: add.assoc)



lemma toFixed2_hundredths: "\<exists>n::int. toFixed2 x = of_int n / 100"
proof (cases "x < 0")
  case True
  then have "toFixed2 x = of_int (- \<lfloor>(- x) * 100 + 1 / 2\<rfloor>) / 100"
    by (simp add: toFixed2_def)
  then show ?thesis by blast
next
  case False
  then have "toFixed2 x = of_int \<lfloor>x * 100 + 1 / 2\<rfloor> / 100"
    by (simp add: toFixed2_def)
  then show ?thesis by blast
qed



subsection \<open>\<open>category_breakdown\<close>: totals and shares\<close>

lemma category_breakdown_fields:
  "grand_total (category_breakdown db period filters)
     = sum_list (map total_amount (breakdown_query db period filters))"
  "breakdown (category_breakdown db period filters)
     = map (\<lambda>g. \<lparr> bi_row = g,
                     percentage = (if sum_list (map total_amount (breakdown_query db period filters)) > 0
                                   then toFixed2 (total_amount g
                                          / sum_list (map total_amount (breakdown_query db period filters)) * 100)
                                   else 0) \<rparr>)
           (breakdown_query db period filters)"
  by (simp_all add: category_breakdown_def Let_def foldl_add_sum_list)





text \<open>
  On a store whose amounts are all positive, as \<open>validateTransaction\<close> requires of every
  transaction it lets through, the grand total is never negative, so that "nonzero" and
  "positive" are the same condition there.
\<close>

lemma breakdown_join_transactions:
  "tc \<in> set (breakdown_join db period filters) \<Longrightarrow> fst tc \<in> set (db_transactions db)"
  by (auto simp: breakdown_join_def)

lemma category_breakdown_positive_amounts:
  assumes "\<forall>t\<in>set (db_transactions db). 0 < txn_amount t"
  shows "0 \<le> grand_total (category_breakdown db period filters)"
proof -
  have "0 \<le> total_amount g" if "g \<in> set (breakdown_query db period filters)" for g
  proof -
    from that obtain k where g: "g = breakdown_group (breakdown_join db period filters) k"
      by (auto simp: breakdown_query_def Let_def)
    have "0 \<le> sum_list (map (\<lambda>tc. txn_amount (fst tc))
                  (filter (\<lambda>tc. breakdown_key tc = k) (breakdown_join db period filters)))"
      using assms breakdown_join_transactions [of _ db period filters]
      by (intro sum_list_nonneg) (auto intro: less_imp_le)
    then show ?thesis by (simp add: g breakdown_group_def Let_def)
  qed
  then show ?thesis
    unfolding category_breakdown_fields(1) by (intro sum_list_nonneg) auto
qed

subsection \<open>\<open>batchCreateTransactions\<close>: the loop\<close>

lemma create_item_Inr:
  "create_item e db k i t c l = (db', k', Inr r) \<Longrightarrow> res_index r = i \<and> res_transaction r = t"
  unfolding create_item_def Let_def
  by (simp split: option.splits sum.splits) auto

lemma create_item_tables:
  "create_item e db k i t c l = (db', k', out) \<Longrightarrow>
     db_categories db' = db_categories db \<and> db_ledgers db' = db_ledgers db \<and> db_budgets db' = db_budgets db"
  unfolding create_item_def Let_def insert_transaction_def
  by (simp split: option.splits sum.splits if_splits) auto

lemma try_item_Inr:
  "try_item e vo db k i t = (db', k', Inr r) \<Longrightarrow> res_index r = i \<and> res_transaction r = t"
  unfolding try_item_def
  by (auto split: sum.splits prod.splits if_splits dest: create_item_Inr)

lemma try_item_tables:
  "try_item e vo db k i t = (db', k', out) \<Longrightarrow>
     db_categories db' = db_categories db \<and> db_ledgers db' = db_ledgers db \<and> db_budgets db' = db_budgets db"
  unfolding try_item_def
  by (auto split: sum.splits prod.splits if_splits dest: create_item_tables)

lemma try_item_validate_only:
  "try_item e True db k i t = (db', k', out) \<Longrightarrow> db' = db \<and> k' = k"
  unfolding try_item_def
  by (auto split: sum.splits prod.splits)


lemma batch_step_indices:
  "mset (batch_indices (batch_step e vo i t st)) = add_mset i (mset (batch_indices st))"
  by (auto simp: batch_step_def batch_indices_def split: prod.splits sum.splits error.splits dest: try_item_Inr)

lemma batch_loop_indices:
  "mset (batch_indices (batch_loop e vo i ts st)) = mset (batch_indices st) + mset [i..<i + length ts]"
proof (induction ts arbitrary: i st)
  case Nil
  then show ?case by simp
next
  case (Cons t ts)
  have "[i..<i + length (t # ts)] = i # [Suc i..<Suc i + length ts]"
    by (subst upt_rec) simp
  then have "mset [i..<i + length (t # ts)] = add_mset i (mset [Suc i..<Suc i + length ts])"
    by (simp only: mset.simps)
  then show ?case
    by (simp only: batch_loop.simps Cons.IH batch_step_indices) simp
qed

lemma check_item_tables:
  "db_categories db' = db_categories db \<Longrightarrow> db_ledgers db' = db_ledgers db \<Longrightarrow>
     check_item db' t = check_item db t"
proof -
  assume a: "db_categories db' = db_categories db" "db_ledgers db' = db_ledgers db"
  have "get_category db' = get_category db" "get_ledger db' = get_ledger db"
    using a by (simp_all add: fun_eq_iff get_category_def get_ledger_def)
  then show ?thesis unfolding check_item_def by (simp only:)
qed

lemma batch_step_tables:
  "db_categories (bs_store (batch_step e vo i t st)) = db_categories (bs_store st) \<and>
   db_ledgers (bs_store (batch_step e vo i t st)) = db_ledgers (bs_store st) \<and>
   db_budgets (bs_store (batch_step e vo i t st)) = db_budgets (bs_store st)"
  by (auto simp: batch_step_def split: prod.splits sum.splits error.splits dest: try_item_tables)

lemma batch_step_errors_mono: "set (bs_errors st) \<subseteq> set (bs_errors (batch_step e vo i t st))"
  by (auto simp: batch_step_def split: prod.splits sum.splits error.splits)

lemma batch_loop_errors_mono: "set (bs_errors st) \<subseteq> set (bs_errors (batch_loop e vo i ts st))"
proof (induction ts arbitrary: i st)
  case Nil
  then show ?case by simp
next
  case (Cons t ts)
  have "set (bs_errors st) \<subseteq> set (bs_errors (batch_step e vo i t st))"
    by (rule batch_step_errors_mono)
  also have "\<dots> \<subseteq> set (bs_errors (batch_loop e vo (Suc i) ts (batch_step e vo i t st)))"
    by (rule Cons.IH)
  finally show ?case by simp
qed

lemma try_item_check_fails:
  "check_item db t = Inl err \<Longrightarrow> try_item e vo db k i t = (db, k, Inl err)"
  by (simp add: try_item_def)

lemma batch_step_check_fails:
  "check_item (bs_store st) t = Inl (Error msg) \<Longrightarrow>
     \<lparr> err_index = i, err_error = msg, err_transaction = t \<rparr> \<in> set (bs_errors (batch_step e vo i t st))"
  by (simp add: batch_step_def try_item_check_fails)

lemma batch_loop_check_fails:
  "db_categories (bs_store st) = db_categories db \<Longrightarrow> db_ledgers (bs_store st) = db_ledgers db \<Longrightarrow>
   j < length ts \<Longrightarrow> check_item db (ts ! j) = Inl (Error msg) \<Longrightarrow>
     \<lparr> err_index = i + j, err_error = msg, err_transaction = ts ! j \<rparr>
       \<in> set (bs_errors (batch_loop e vo i ts st))"
proof (induction ts arbitrary: i j st)
  case Nil
  then show ?case by simp
next
  case (Cons t ts)
  let ?st = "batch_step e vo i t st"
  have tabs: "db_categories (bs_store ?st) = db_categories db" "db_ledgers (bs_store ?st) = db_ledgers db"
    using batch_step_tables [of e vo i t st] Cons.prems(1,2) by simp_all
  show ?case
  proof (cases j)
    case 0
    have "check_item (bs_store st) t = Inl (Error msg)"
      using Cons.prems 0 check_item_tables [of "bs_store st" db t] by simp
    then have "\<lparr> err_index = i, err_error = msg, err_transaction = t \<rparr> \<in> set (bs_errors ?st)"
      by (rule batch_step_check_fails)
    then show ?thesis
      using batch_loop_errors_mono [of ?st e vo "Suc i" ts] 0 by auto
  next
    case (Suc j')
    have "\<lparr> err_index = Suc i + j', err_error = msg, err_transaction = ts ! j' \<rparr>
            \<in> set (bs_errors (batch_loop e vo (Suc i) ts ?st))"
      using Cons.prems Suc by (intro Cons.IH tabs) simp_all
    then show ?thesis using Suc by simp
  qed
qed

lemma batch_step_counts:
  "length (bs_results (batch_step e vo i t st)) + length (bs_errors (batch_step e vo i t st))
     = Suc (length (bs_results st) + length (bs_errors st))"
  by (auto simp: batch_step_def split: prod.splits sum.splits error.splits)

lemma batch_loop_counts:
  "length (bs_results (batch_loop e vo i ts st)) + length (bs_errors (batch_loop e vo i ts st))
     = length (bs_results st) + length (bs_errors st) + length ts"
  by (induction ts arbitrary: i st) (simp_all add: batch_step_counts)

lemma batch_step_entries:
  assumes "\<forall>x\<in>set (bs_results st). res_index x < i"  "\<forall>x\<in>set (bs_errors st). err_index x < i"
  shows "(\<forall>x\<in>set (bs_results (batch_step e vo i t st)). res_index x < Suc i) \<and>
         (\<forall>x\<in>set (bs_errors (batch_step e vo i t st)). err_index x < Suc i)"
  using assms
  by (auto simp: batch_step_def less_Suc_eq split: prod.splits sum.splits error.splits dest: try_item_Inr)

text \<open>
  C5. For every input list, a failing element does not abort the loop. The indices held
  by \<open>results\<close> and \<open>errors\<close> together are the indices of the input, each exactly once;
  the summary reports the length of the input as total, and successful plus failed is
  the total. An element of invalid shape is recorded in \<open>errors\<close> at its index with the
  joined validation messages, an element whose category is unknown with
  \<open>Category not found\<close>, and an element whose ledger is unknown with \<open>Ledger not found\<close>.
\<close>

theorem batchCreateTransactions_isolates_failures:
  fixes e db txns validateOnly
  defines "r \<equiv> fst (batchCreateTransactions e db txns validateOnly)"
  shows "mset (map res_index (results r) @ map err_index (errors r)) = mset [0..<length txns]
    \<and> sm_total (summary r) = length txns
    \<and> sm_successful (summary r) + sm_failed (summary r) = sm_total (summary r)
    \<and> (\<forall>i<length txns. validateTransaction (txns ! i) \<noteq> [] \<longrightarrow>
          \<lparr> err_index = i, err_error = join '', '' (validateTransaction (txns ! i)),
            err_transaction = txns ! i \<rparr> \<in> set (errors r))
    \<and> (\<forall>i<length txns. \<forall>c. validateTransaction (txns ! i) = [] \<and> in_category (txns ! i) = Some c
            \<and> get_category db c = None \<longrightarrow>
          \<lparr> err_index = i, err_error = ''Category not found: '' @ c,
            err_transaction = txns ! i \<rparr> \<in> set (errors r))
    \<and> (\<forall>i<length txns. \<forall>c. validateTransaction (txns ! i) = [] \<and> in_category (txns ! i) = Some c
            \<and> get_category db c \<noteq> None \<and> get_ledger db (ledger_or_default (txns ! i)) = None \<longrightarrow>
          \<lparr> err_index = i, err_error = ''Ledger not found: '' @ ledger_or_default (txns ! i),
            err_transaction = txns ! i \<rparr> \<in> set (errors r))"
proof -
  let ?init = "\<lparr> bs_store = db, bs_ids = 0, bs_results = [], bs_errors = [] \<rparr>"
  let ?fin = "batch_loop e validateOnly 0 txns ?init"
  have res: "results r = bs_results ?fin" and err: "errors r = bs_errors ?fin"
    by (simp_all add: r_def batchCreateTransactions_def Let_def)
  have sm: "sm_total (summary r) = length txns"
      "sm_successful (summary r) = length (bs_results ?fin)"
      "sm_failed (summary r) = length (bs_errors ?fin)"
    by (simp_all add: r_def batchCreateTransactions_def Let_def)
  have c1: "mset (map res_index (results r) @ map err_index (errors r)) = mset [0..<length txns]"
    using batch_loop_indices [where e = e and vo = validateOnly and i = 0 and ts = txns and st = ?init]
    by (simp add: res err batch_indices_def)
  have c3: "sm_successful (summary r) + sm_failed (summary r) = sm_total (summary r)"
    using batch_loop_counts [where e = e and vo = validateOnly and i = 0 and ts = txns and st = ?init] by (simp add: sm)
  have rec: "\<lparr> err_index = i, err_error = msg, err_transaction = txns ! i \<rparr> \<in> set (errors r)"
    if "i < length txns" "check_item db (txns ! i) = Inl (Error msg)" for i msg
    using batch_loop_check_fails [where st = ?init and db = db and j = i and ts = txns and msg = msg
            and i = 0 and e = e and vo = validateOnly] that
    by (simp add: err)
  have c4: "\<lparr> err_index = i, err_error = join '', '' (validateTransaction (txns ! i)),
              err_transaction = txns ! i \<rparr> \<in> set (errors r)"
    if "i < length txns" "validateTransaction (txns ! i) \<noteq> []" for i
    using that by (intro rec) (simp_all add: check_item_def)
  have c5: "\<lparr> err_index = i, err_error = ''Category not found: '' @ c,
              err_transaction = txns ! i \<rparr> \<in> set (errors r)"
    if "i < length txns" "validateTransaction (txns ! i) = []" "in_category (txns ! i) = Some c"
       "get_category db c = None" for i c
    using that by (intro rec) (simp_all add: check_item_def)
  have c6: "\<lparr> err_index = i, err_error = ''Ledger not found: '' @ ledger_or_default (txns ! i),
              err_transaction = txns ! i \<rparr> \<in> set (errors r)"
    if "i < length txns" "validateTransaction (txns ! i) = []" "in_category (txns ! i) = Some c"
       "get_category db c \<noteq> None" "get_ledger db (ledger_or_default (txns ! i)) = None" for i c
    using that by (intro rec) (auto simp: check_item_def)
  show ?thesis using c1 sm(1) c3 c4 c5 c6 by blast
qed

lemma sample_batch_run:
  "fst (batchCreateTransactions sample_env (seedData ''2024-01'') sample_batch False)
     = \<lparr> results =
           [ \<lparr> res_index = 1, res_status = ''created'',
               res_transaction_id = Some ''txn_new_0000'', res_transaction = sample_batch ! 1 \<rparr>,
             \<lparr> res_index = 4, res_status = ''created'',
               res_transaction_id = Some ''txn_new_0001'', res_transaction = sample_batch ! 4 \<rparr> ],
         errors =
           [ \<lparr> err_index = 0, err_error = ''Invalid transaction type, Invalid amount'',
               err_transaction = sample_batch ! 0 \<rparr>,
             \<lparr> err_index = 2, err_error = ''Category not found: pets'',
               err_transaction = sample_batch ! 2 \<rparr>,
             \<lparr> err_index = 3, err_error = ''Ledger not found: paypal'',
               err_transaction = sample_batch ! 3 \<rparr> ],
         summary = \<lparr> sm_total = 5, sm_successful = 2, sm_failed = 3, sm_validate_only = False \<rparr> \<rparr>"
  by code_simp

theorem batchCreateTransactions_isolates_failures_witness:
  "(0::nat) < length sample_batch
   \<and> validateTransaction (sample_batch ! 0) \<noteq> []
   \<and> \<lparr> err_index = 0, err_error = join '', '' (validateTransaction (sample_batch ! 0)),
        err_transaction = sample_batch ! 0 \<rparr>
       \<in> set (errors (fst (batchCreateTransactions sample_env (seedData ''2024-01'') sample_batch False)))
   \<and> map res_index
         (results (fst (batchCreateTransactions sample_env (seedData ''2024-01'') sample_batch False)))
       = [1, 4]
   \<and> map err_index
         (errors (fst (batchCreateTransactions sample_env (seedData ''2024-01'') sample_batch False)))
       = [0, 2, 3]"
proof -
  have h1: "(0::nat) < length sample_batch" by code_simp
  have h2: "validateTransaction (sample_batch ! 0) \<noteq> []" by code_simp
  have "\<lparr> err_index = 0, err_error = join '', '' (validateTransaction (sample_batch ! 0)),
          err_transaction = sample_batch ! 0 \<rparr>
         \<in> set (errors (fst (batchCreateTransactions sample_env (seedData ''2024-01'') sample_batch False)))"
    using batchCreateTransactions_isolates_failures
            [of sample_env "seedData ''2024-01''" sample_batch False] h1 h2
    by blast
  then show ?thesis using h1 h2 by (simp add: sample_batch_run)
qed

subsection \<open>\<open>batchCreateTransactions\<close>: the dry run\<close>

lemma batch_step_validate_only_store: "bs_store (batch_step e True i t st) = bs_store st"
  by (auto simp: batch_step_def split: prod.splits sum.splits error.splits dest: try_item_validate_only)

lemma batch_loop_validate_only_store: "bs_store (batch_loop e True i ts st) = bs_store st"
  by (induction ts arbitrary: i st) (simp_all add: batch_step_validate_only_store)

lemma batchCreateTransactions_validate_only_frame:
  "snd (batchCreateTransactions e db txns True) = db"
  by (simp add: batchCreateTransactions_def Let_def batch_loop_validate_only_store)

lemma check_bad_date_item: "check_item (seedData m) bad_date_item = Inr (''groceries'', ''checking'')"
  by (simp add: check_item_def bad_date_item_def sample_item_def validateTransaction_def
      get_category_def get_ledger_def seedData_def ledger_or_default_def)

text \<open>
  C4. A dry run leaves the store as it was (\<open>batchCreateTransactions_validate_only_frame\<close>),
  but its report does not always match the run that persists: an element whose date text
  the runtime cannot read passes every check of the dry run and is reported \<open>valid\<close>,
  while the persisting run throws in \<open>formatDate\<close> and records the element in \<open>errors\<close>.
\<close>

theorem batchCreateTransactions_dry_run_disagrees:
  assumes "env_toISODate e ''not-a-date'' = None"
  shows "fst (batchCreateTransactions e (seedData m) [bad_date_item] True)
           = \<lparr> results = [\<lparr> res_index = 0, res_status = ''valid'', res_transaction_id = None,
                            res_transaction = bad_date_item \<rparr>],
               errors = [],
               summary = \<lparr> sm_total = 1, sm_successful = 1, sm_failed = 0, sm_validate_only = True \<rparr> \<rparr>
       \<and> batchCreateTransactions e (seedData m) [bad_date_item] False
           = (\<lparr> results = [],
                errors = [\<lparr> err_index = 0, err_error = ''Invalid time value'',
                           err_transaction = bad_date_item \<rparr>],
                summary = \<lparr> sm_total = 1, sm_successful = 0, sm_failed = 1, sm_validate_only = False \<rparr> \<rparr>,
              seedData m)"
proof -
  have d: "formatDate e (in_date bad_date_item) = Inl (Error ''Invalid time value'')"
    using assms by (simp add: formatDate_def bad_date_item_def)
  have dry: "try_item e True (seedData m) 0 0 bad_date_item
               = (seedData m, 0, Inr \<lparr> res_index = 0, res_status = ''valid'', res_transaction_id = None,
                            res_transaction = bad_date_item \<rparr>)"
    by (simp add: try_item_def check_bad_date_item)
  have wet: "try_item e False (seedData m) 0 0 bad_date_item
               = (seedData m, Suc 0, Inl (Error ''Invalid time value''))"
    by (simp add: try_item_def check_bad_date_item create_item_def d)
  show ?thesis
    by (simp add: batchCreateTransactions_def batch_step_def dry wet)
qed

theorem batchCreateTransactions_dry_run_disagrees_witness:
  "env_toISODate sample_env ''not-a-date'' = None
   \<and> map res_status (results (fst (batchCreateTransactions sample_env (seedData ''2024-01'')
                                     [bad_date_item] True))) = [''valid'']
   \<and> map err_error (errors (fst (batchCreateTransactions sample_env (seedData ''2024-01'')
                                    [bad_date_item] False))) = [''Invalid time value'']"
proof -
  have h: "env_toISODate sample_env ''not-a-date'' = None" by code_simp
  show ?thesis
    using batchCreateTransactions_dry_run_disagrees [OF h, of "''2024-01''"] h by simp
qed

subsection \<open>\<open>budget_variance\<close>\<close>







subsection \<open>\<open>category_breakdown\<close>: what is grouped\<close>












subsection \<open>\<open>time_trend\<close>\<close>

lemma count_mondays:
  "length (filter (\<lambda>k. (a + k) mod 7 = 0) [0..<Suc n]) = (n + 7 - (a + n) mod 7) div 7"
proof (induction n)
  case 0
  have "length (filter (\<lambda>k. (a + k) mod 7 = 0) [0..<Suc 0]) = (if a mod 7 = 0 then 1 else 0)"
    by simp
  also have "\<dots> = (0 + 7 - (a + 0) mod 7) div 7"
    by (cases "a mod 7 = 0") (simp_all add: div_eq_0_iff)
  finally show ?case .
next
  case (Suc n)
  have "[0..<Suc (Suc n)] = [0..<Suc n] @ [Suc n]" by simp
  then have "length (filter (\<lambda>k. (a + k) mod 7 = 0) [0..<Suc (Suc n)])
               = length (filter (\<lambda>k. (a + k) mod 7 = 0) [0..<Suc n])
                 + (if (a + Suc n) mod 7 = 0 then 1 else 0)"
    by (simp only: filter_append length_append) simp
  also have "\<dots> = (n + 7 - (a + n) mod 7) div 7 + (if (a + Suc n) mod 7 = 0 then 1 else 0)"
    by (simp only: Suc.IH)
  also have "\<dots> = (Suc n + 7 - (a + Suc n) mod 7) div 7"
  proof (cases "(a + Suc n) mod 7 = 0")
    case True
    then have "(a + n) mod 7 = 6" by (simp add: mod_Suc split: if_splits)
    with True show ?thesis by simp
  next
    case False
    then have "(a + Suc n) mod 7 = Suc ((a + n) mod 7)" by (simp add: mod_Suc split: if_splits)
    with False show ?thesis by simp
  qed
  finally show ?case .
qed

lemma weekday_from_new_year: "weekday y m d = (weekday y 1 1 + day_of_year y m d) mod 7"
proof -
  have "day_of_year y 1 1 = 0" by (simp add: day_of_year_def)
  then show ?thesis by (simp add: weekday_def mod_simps add.commute add.left_commute)
qed

lemma week_of_year_mondays: "week_of_year y m d = mondays_upto y m d"
  by (simp only: week_of_year_def mondays_upto_def count_mondays weekday_from_new_year [symmetric])

lemma strftime_week:
  "strftime ''%Y-%W'' date =
     (case parse_ymd date of
        None \<Rightarrow> None
      | Some (y, m, d) \<Rightarrow> Some (pad4 y @ ''-'' @ pad2 (mondays_upto y m d)))"
  by (simp add: strftime_def strftime_field_def week_of_year_mondays split: option.splits)

lemma sum_list_if_filter:
  "sum_list (map (\<lambda>t. if P t then f t else 0) xs) = sum_list (map f (filter P xs))" for f :: "'a \<Rightarrow> rat"
  by (induction xs) simp_all

lemma time_trend_periods:
  "map tr_period (trends (time_trend db period filters))
     = sort (remdups (map (\<lambda>t. strftime (dateFormat (tr_grouping (time_trend db period filters))) (txn_date t))
          (filter (\<lambda>t. in_window period t \<and> type_matches filters t) (db_transactions db))))"
  by (simp add: time_trend_def Let_def comp_def trend_group_def)

lemma trend_group_fields:
  "tr_period (trend_group fmt rows k) = k"
  "expenses (trend_group fmt rows k)
     = sum_list (map txn_amount (filter (\<lambda>t. strftime fmt (txn_date t) = k \<and> txn_type t = Expense) rows))"
  "income (trend_group fmt rows k)
     = sum_list (map txn_amount (filter (\<lambda>t. strftime fmt (txn_date t) = k \<and> txn_type t = Income) rows))"
  "tr_transaction_count (trend_group fmt rows k)
     = length (filter (\<lambda>t. strftime fmt (txn_date t) = k) rows)"
  by (simp_all add: trend_group_def Let_def sum_list_if_filter conj_commute)

lemma time_trend_unfold:
  "trends (time_trend db period filters)
     = map (trend_group (dateFormat (tr_grouping (time_trend db period filters)))
              (filter (\<lambda>t. in_window period t \<and> type_matches filters t) (db_transactions db)))
           (sort (remdups (map (\<lambda>t. strftime (dateFormat (tr_grouping (time_trend db period filters)))
                                    (txn_date t))
              (filter (\<lambda>t. in_window period t \<and> type_matches filters t) (db_transactions db)))))"
  "tr_grouping (time_trend db period filters)
     = (case p_grouping period of None \<Rightarrow> ''month'' | Some g \<Rightarrow> g)"
  by (simp_all add: time_trend_def Let_def)

lemma time_trend_default_month:
  assumes "g \<noteq> ''day''" "g \<noteq> ''week''"
  shows "trends (time_trend db (period \<lparr> p_grouping := Some g \<rparr>) filters)
           = trends (time_trend db (period \<lparr> p_grouping := Some ''month'' \<rparr>) filters)"
proof -
  have "dateFormat g = dateFormat ''month''" using assms by (simp add: dateFormat_def)
  then show ?thesis by (simp add: time_trend_def Let_def in_window_def)
qed

text \<open>
  C6 (as amended). For every store, window, filters and grouping argument,
  \<open>analyzeSpending\<close> with analysis type \<open>time_trend\<close> buckets the transactions of the
  window by \<open>strftime\<close> with the format of the day for \<open>day\<close>, of the week for \<open>week\<close> and
  of the month for \<open>month\<close>, for an absent grouping and for every other grouping value.
  The week bucket of a calendar day is its calendar year followed by the two-digit count
  of the Mondays of that year up to that day (SQLite's \<open>%W\<close>: week 01 starts on the first
  Monday, the days before it are week 00). There is one row for each bucket, the buckets
  are distinct and in ascending order, and each row holds the sum of the expense amounts,
  the sum of the income amounts and the number of the transactions of its bucket.
\<close>

theorem time_trend_buckets:
  fixes db period filters
  defines "r \<equiv> time_trend db period filters"
  defines "fmt \<equiv> dateFormat (case p_grouping period of None \<Rightarrow> ''month'' | Some g \<Rightarrow> g)"
  defines "rows \<equiv> filter (\<lambda>t. in_window period t \<and> type_matches filters t) (db_transactions db)"
  shows "analyzeSpending db ''time_trend'' period filters = Inr (Trend r)
    \<and> fmt = (if p_grouping period = Some ''day'' then ''%Y-%m-%d''
             else if p_grouping period = Some ''week'' then ''%Y-%W'' else ''%Y-%m'')
    \<and> (\<forall>g. g \<noteq> ''day'' \<and> g \<noteq> ''week'' \<longrightarrow>
          trends (time_trend db (period \<lparr> p_grouping := Some g \<rparr>) filters)
            = trends (time_trend db (period \<lparr> p_grouping := Some ''month'' \<rparr>) filters))
    \<and> sorted (map tr_period (trends r)) \<and> distinct (map tr_period (trends r))
    \<and> set (map tr_period (trends r)) = (\<lambda>t. strftime fmt (txn_date t)) ` set rows
    \<and> (\<forall>x\<in>set (trends r).
          expenses x = sum_list (map txn_amount
             (filter (\<lambda>t. strftime fmt (txn_date t) = tr_period x \<and> txn_type t = Expense) rows))
        \<and> income x = sum_list (map txn_amount
             (filter (\<lambda>t. strftime fmt (txn_date t) = tr_period x \<and> txn_type t = Income) rows))
        \<and> tr_transaction_count x
             = length (filter (\<lambda>t. strftime fmt (txn_date t) = tr_period x) rows))
    \<and> (\<forall>date y m d. parse_ymd date = Some (y, m, d) \<longrightarrow>
          strftime ''%Y-%W'' date = Some (pad4 y @ ''-'' @ pad2 (mondays_upto y m d)))"
proof -
  define keys where "keys = sort (remdups (map (\<lambda>t. strftime fmt (txn_date t)) rows))"
  have tr: "trends r = map (trend_group fmt rows) keys"
    by (simp add: r_def time_trend_unfold fmt_def rows_def keys_def)
  have per: "map tr_period (trends r) = keys"
    by (simp add: tr comp_def trend_group_fields)
  have c1: "analyzeSpending db ''time_trend'' period filters = Inr (Trend r)"
    by (simp add: analyzeSpending_def r_def)
  have c2: "fmt = (if p_grouping period = Some ''day'' then ''%Y-%m-%d''
             else if p_grouping period = Some ''week'' then ''%Y-%W'' else ''%Y-%m'')"
    by (simp add: fmt_def dateFormat_def split: option.splits)
  have c3: "trends (time_trend db (period \<lparr> p_grouping := Some g \<rparr>) filters)
            = trends (time_trend db (period \<lparr> p_grouping := Some ''month'' \<rparr>) filters)"
    if "g \<noteq> ''day'' \<and> g \<noteq> ''week''" for g
    using that by (intro time_trend_default_month) simp_all
  have c4: "sorted (map tr_period (trends r))" "distinct (map tr_period (trends r))"
    by (simp_all add: per keys_def)
  have c5: "set (map tr_period (trends r)) = (\<lambda>t. strftime fmt (txn_date t)) ` set rows"
    by (simp add: per keys_def)
  have c6: "\<forall>x\<in>set (trends r).
          expenses x = sum_list (map txn_amount
             (filter (\<lambda>t. strftime fmt (txn_date t) = tr_period x \<and> txn_type t = Expense) rows))
        \<and> income x = sum_list (map txn_amount
             (filter (\<lambda>t. strftime fmt (txn_date t) = tr_period x \<and> txn_type t = Income) rows))
        \<and> tr_transaction_count x
             = length (filter (\<lambda>t. strftime fmt (txn_date t) = tr_period x) rows)"
    by (auto simp: tr trend_group_fields)
  have c7: "strftime ''%Y-%W'' date = Some (pad4 y @ ''-'' @ pad2 (mondays_upto y m d))"
    if "parse_ymd date = Some (y, m, d)" for date y m d
    using that by (simp add: strftime_week)
  show ?thesis using c1 c2 c3 c4 c5 c6 c7 by blast
qed

lemmas calendar_defs = strftime_def parse_ymd_def digit_of_def strftime_field_def pad2_def pad4_def
  week_of_year_def weekday_def day_of_year_def days_before_year_def days_in_month_def leap_year_def

lemma strftime_samples:
  "strftime ''%Y-%W'' ''2021-01-01'' = Some ''2021-00''"
  "strftime ''%Y-%W'' ''2024-01-07'' = Some ''2024-01''"
  "strftime ''%Y-%W'' ''2024-01-08'' = Some ''2024-02''"
  "strftime ''%Y-%W'' ''2024-01-09'' = Some ''2024-02''"
  by (simp_all add: calendar_defs)

lemma parse_ymd_samples:
  "parse_ymd ''2021-01-01'' = Some (2021, 1, 1)"
  "parse_ymd ''2024-01-09'' = Some (2024, 1, 9)"
  by (simp_all add: calendar_defs)

lemma iso_week_sample: "iso_week 2021 1 1 = 53"
  by (simp add: iso_week_def iso_weeks_in_year_def calendar_defs)

lemmas trend_defs = time_trend_def weekly_def no_filters_def in_window_def type_matches_def
  dateFormat_def trend_group_def

text \<open>
  The claim as stated says that the week bucket follows the ISO week of the year. The
  first of January 2021, a Friday, belongs to ISO week 53 (of 2020); its bucket is
  \<open>2021-00\<close>.
\<close>

theorem time_trend_iso_week_counterexample:
  "map tr_period (trends (time_trend new_year_store (weekly ''2021-01-01'' ''2021-01-31'') no_filters))
     = [Some ''2021-00'']
   \<and> parse_ymd ''2021-01-01'' = Some (2021, 1, 1)
   \<and> iso_week 2021 1 1 = 53
   \<and> strftime ''%Y-%W'' ''2021-01-01'' \<noteq> Some (pad4 2021 @ ''-'' @ pad2 (iso_week 2021 1 1))"
proof -
  have a: "map tr_period
             (trends (time_trend new_year_store (weekly ''2021-01-01'' ''2021-01-31'') no_filters))
           = [Some ''2021-00'']"
    by (simp add: trend_defs new_year_store_def strftime_samples)
  have b: "strftime ''%Y-%W'' ''2021-01-01'' \<noteq> Some (pad4 2021 @ ''-'' @ pad2 (iso_week 2021 1 1))"
    unfolding iso_week_sample strftime_samples by (simp add: pad2_def pad4_def)
  show ?thesis using a b parse_ymd_samples(1) iso_week_sample by blast
qed

lemma two_weeks_trend:
  "trends (time_trend two_weeks_store (weekly ''2024-01-01'' ''2024-01-31'') no_filters)
     = [ \<lparr> tr_period = Some ''2024-01'', expenses = 20, income = 0, tr_transaction_count = 1 \<rparr>,
         \<lparr> tr_period = Some ''2024-02'', expenses = 5, income = 50, tr_transaction_count = 2 \<rparr> ]"
  by (simp add: trend_defs two_weeks_store_def strftime_samples)

theorem time_trend_buckets_witness:
  "parse_ymd ''2024-01-09'' = Some (2024, 1, 9)
   \<and> strftime ''%Y-%W'' ''2024-01-09'' = Some (pad4 2024 @ ''-'' @ pad2 (mondays_upto 2024 1 9))
   \<and> trends (time_trend two_weeks_store (weekly ''2024-01-01'' ''2024-01-31'') no_filters)
     = [ \<lparr> tr_period = Some ''2024-01'', expenses = 20, income = 0, tr_transaction_count = 1 \<rparr>,
         \<lparr> tr_period = Some ''2024-02'', expenses = 5, income = 50, tr_transaction_count = 2 \<rparr> ]
   \<and> sorted (map tr_period
         (trends (time_trend two_weeks_store (weekly ''2024-01-01'' ''2024-01-31'') no_filters)))"
  using time_trend_buckets [where db = two_weeks_store
          and period = "weekly ''2024-01-01'' ''2024-01-31''" and filters = no_filters]
        parse_ymd_samples(2) two_weeks_trend
  by blast

subsection \<open>\<open>getRecordDetails\<close>\<close>

lemma transaction_rows_empty:
  "\<forall>t\<in>set (db_transactions db). txn_id t \<noteq> recordId \<Longrightarrow> transaction_rows db recordId = []"
  by (simp add: transaction_rows_def filter_empty_conv)

lemma budget_rows_empty:
  "\<forall>b\<in>set (db_budgets db). bud_id b \<noteq> recordId \<Longrightarrow> budget_rows db recordId = []"
  by (simp add: budget_rows_def filter_empty_conv)

lemma get_ledger_None:
  "\<forall>l\<in>set (db_ledgers db). led_id l \<noteq> recordId \<Longrightarrow> get_ledger db recordId = None"
  by (simp add: get_ledger_def find_None_iff)

lemma get_ledger_Some:
  "l \<in> set (db_ledgers db) \<Longrightarrow> led_id l = recordId \<Longrightarrow>
     \<exists>l'. get_ledger db recordId = Some l' \<and> l' \<in> set (db_ledgers db) \<and> led_id l' = recordId"
  by (cases "get_ledger db recordId")
     (auto simp: get_ledger_def find_None_iff find_Some_iff)

lemma transaction_rows_member:
  "j \<in> set (transaction_rows db recordId) \<Longrightarrow>
     jt_transaction j \<in> set (db_transactions db) \<and> txn_id (jt_transaction j) = recordId
     \<and> (\<exists>c\<in>set (db_categories db). cat_id c = txn_category_id (jt_transaction j)
            \<and> jt_category_name j = cat_name c \<and> jt_category_type j = cat_type c)
     \<and> (\<exists>l\<in>set (db_ledgers db). led_id l = txn_ledger_id (jt_transaction j)
            \<and> jt_ledger_name j = led_name l \<and> jt_ledger_type j = led_type l)"
  by (auto simp: transaction_rows_def)

lemma transaction_rows_nonempty:
  "t \<in> set (db_transactions db) \<Longrightarrow> txn_id t = recordId \<Longrightarrow>
   c \<in> set (db_categories db) \<Longrightarrow> cat_id c = txn_category_id t \<Longrightarrow>
   l \<in> set (db_ledgers db) \<Longrightarrow> led_id l = txn_ledger_id t \<Longrightarrow>
     transaction_rows db recordId \<noteq> []"
  by (auto simp: transaction_rows_def filter_empty_conv) metis

lemma budget_rows_member:
  "j \<in> set (budget_rows db recordId) \<Longrightarrow>
     jb_budget j \<in> set (db_budgets db) \<and> bud_id (jb_budget j) = recordId
     \<and> (\<exists>c\<in>set (db_categories db). cat_id c = bud_category_id (jb_budget j)
            \<and> jb_category_name j = cat_name c \<and> jb_category_type j = cat_type c)"
  by (auto simp: budget_rows_def)

lemma budget_rows_nonempty:
  "b \<in> set (db_budgets db) \<Longrightarrow> bud_id b = recordId \<Longrightarrow>
   c \<in> set (db_categories db) \<Longrightarrow> cat_id c = bud_category_id b \<Longrightarrow>
     budget_rows db recordId \<noteq> []"
  by (auto simp: budget_rows_def filter_empty_conv) metis

text \<open>
  C8. For each of the record types \<open>transaction\<close>, \<open>ledger_record\<close> and
  \<open>budget_snapshot\<close> and every record id that no row of the table carries,
  \<open>getRecordDetails\<close> fails with the not-found error of the type, whose message ends with
  the id. When a row carries the id (and the category and the ledger that it references
  exist, as the foreign keys of the schema require), the function returns a row of that
  id joined with the name and type of its category and, for a transaction, with the
  name and type of its ledger.
\<close>

theorem getRecordDetails_lookup:
  "((\<forall>t\<in>set (db_transactions db). txn_id t \<noteq> rid) \<longrightarrow>
      getRecordDetails e db ''transaction'' rid inc = Inl (Error (''Transaction not found: '' @ rid)))
   \<and> ((\<forall>l\<in>set (db_ledgers db). led_id l \<noteq> rid) \<longrightarrow>
      getRecordDetails e db ''ledger_record'' rid inc = Inl (Error (''Ledger not found: '' @ rid)))
   \<and> ((\<forall>b\<in>set (db_budgets db). bud_id b \<noteq> rid) \<longrightarrow>
      getRecordDetails e db ''budget_snapshot'' rid inc = Inl (Error (''Budget not found: '' @ rid)))
   \<and> ((\<exists>t\<in>set (db_transactions db). txn_id t = rid
          \<and> (\<exists>c\<in>set (db_categories db). cat_id c = txn_category_id t)
          \<and> (\<exists>l\<in>set (db_ledgers db). led_id l = txn_ledger_id t)) \<longrightarrow>
      (\<exists>j rel. getRecordDetails e db ''transaction'' rid inc = Inr (TransactionDetails j rel)
         \<and> jt_transaction j \<in> set (db_transactions db) \<and> txn_id (jt_transaction j) = rid
         \<and> (\<exists>c\<in>set (db_categories db). cat_id c = txn_category_id (jt_transaction j)
                \<and> jt_category_name j = cat_name c \<and> jt_category_type j = cat_type c)
         \<and> (\<exists>l\<in>set (db_ledgers db). led_id l = txn_ledger_id (jt_transaction j)
                \<and> jt_ledger_name j = led_name l \<and> jt_ledger_type j = led_type l)))
   \<and> ((\<exists>l\<in>set (db_ledgers db). led_id l = rid) \<longrightarrow>
      (\<exists>l rel. getRecordDetails e db ''ledger_record'' rid inc = Inr (LedgerDetails l rel)
         \<and> l \<in> set (db_ledgers db) \<and> led_id l = rid))
   \<and> ((\<exists>b\<in>set (db_budgets db). bud_id b = rid
          \<and> (\<exists>c\<in>set (db_categories db). cat_id c = bud_category_id b)) \<longrightarrow>
      (\<exists>j rel. getRecordDetails e db ''budget_snapshot'' rid inc = Inr (BudgetDetails j rel)
         \<and> jb_budget j \<in> set (db_budgets db) \<and> bud_id (jb_budget j) = rid
         \<and> (\<exists>c\<in>set (db_categories db). cat_id c = bud_category_id (jb_budget j)
                \<and> jb_category_name j = cat_name c \<and> jb_category_type j = cat_type c)))"
proof -
  have n1: "getRecordDetails e db ''transaction'' rid inc = Inl (Error (''Transaction not found: '' @ rid))"
    if "\<forall>t\<in>set (db_transactions db). txn_id t \<noteq> rid"
    using transaction_rows_empty [OF that] by (simp add: getRecordDetails_def)
  have n2: "getRecordDetails e db ''ledger_record'' rid inc = Inl (Error (''Ledger not found: '' @ rid))"
    if "\<forall>l\<in>set (db_ledgers db). led_id l \<noteq> rid"
    using get_ledger_None [OF that] by (simp add: getRecordDetails_def)
  have n3: "getRecordDetails e db ''budget_snapshot'' rid inc = Inl (Error (''Budget not found: '' @ rid))"
    if "\<forall>b\<in>set (db_budgets db). bud_id b \<noteq> rid"
    using budget_rows_empty [OF that] by (simp add: getRecordDetails_def)
  have p1: "\<exists>j rel. getRecordDetails e db ''transaction'' rid inc = Inr (TransactionDetails j rel)
         \<and> jt_transaction j \<in> set (db_transactions db) \<and> txn_id (jt_transaction j) = rid
         \<and> (\<exists>c\<in>set (db_categories db). cat_id c = txn_category_id (jt_transaction j)
                \<and> jt_category_name j = cat_name c \<and> jt_category_type j = cat_type c)
         \<and> (\<exists>l\<in>set (db_ledgers db). led_id l = txn_ledger_id (jt_transaction j)
                \<and> jt_ledger_name j = led_name l \<and> jt_ledger_type j = led_type l)"
    if "\<exists>t\<in>set (db_transactions db). txn_id t = rid
          \<and> (\<exists>c\<in>set (db_categories db). cat_id c = txn_category_id t)
          \<and> (\<exists>l\<in>set (db_ledgers db). led_id l = txn_ledger_id t)"
  proof -
    from that have "transaction_rows db rid \<noteq> []"
      using transaction_rows_nonempty by blast
    then obtain j js where js: "transaction_rows db rid = j # js"
      by (cases "transaction_rows db rid") auto
    then have "j \<in> set (transaction_rows db rid)" by simp
    from transaction_rows_member [OF this] js show ?thesis
      by (simp add: getRecordDetails_def)
  qed
  have p2: "\<exists>l rel. getRecordDetails e db ''ledger_record'' rid inc = Inr (LedgerDetails l rel)
         \<and> l \<in> set (db_ledgers db) \<and> led_id l = rid"
    if "\<exists>l\<in>set (db_ledgers db). led_id l = rid"
  proof -
    from that obtain l' where "get_ledger db rid = Some l'" "l' \<in> set (db_ledgers db)" "led_id l' = rid"
      using get_ledger_Some by blast
    then show ?thesis by (simp add: getRecordDetails_def)
  qed
  have p3: "\<exists>j rel. getRecordDetails e db ''budget_snapshot'' rid inc = Inr (BudgetDetails j rel)
         \<and> jb_budget j \<in> set (db_budgets db) \<and> bud_id (jb_budget j) = rid
         \<and> (\<exists>c\<in>set (db_categories db). cat_id c = bud_category_id (jb_budget j)
                \<and> jb_category_name j = cat_name c \<and> jb_category_type j = cat_type c)"
    if "\<exists>b\<in>set (db_budgets db). bud_id b = rid
          \<and> (\<exists>c\<in>set (db_categories db). cat_id c = bud_category_id b)"
  proof -
    from that have "budget_rows db rid \<noteq> []"
      using budget_rows_nonempty by blast
    then obtain j js where js: "budget_rows db rid = j # js"
      by (cases "budget_rows db rid") auto
    then have "j \<in> set (budget_rows db rid)" by simp
    from budget_rows_member [OF this] js show ?thesis
      by (simp add: getRecordDetails_def)
  qed
  show ?thesis using n1 n2 n3 p1 p2 p3 by blast
qed

theorem getRecordDetails_lookup_witness:
  "getRecordDetails sample_env (seedData ''2024-01'') ''transaction'' ''txn_999'' False
     = Inl (Error ''Transaction not found: txn_999'')
   \<and> getRecordDetails sample_env (seedData ''2024-01'') ''ledger_record'' ''paypal'' False
     = Inl (Error ''Ledger not found: paypal'')
   \<and> getRecordDetails sample_env (seedData ''2024-01'') ''budget_snapshot'' ''budget_pets'' False
     = Inl (Error ''Budget not found: budget_pets'')
   \<and> getRecordDetails sample_env (seedData ''2024-01'') ''transaction'' ''txn_001'' False
     = Inr (TransactionDetails
         \<lparr> jt_transaction =
             \<lparr> txn_id = ''txn_001'', txn_type = Expense, txn_amount = 4599 / 100,
               txn_category_id = ''groceries'', txn_ledger_id = ''checking'',
               txn_description = ''Weekly grocery shopping'', txn_date = ''2024-01-05'',
               txn_tags = ''weekly,essential'' \<rparr>,
           jt_category_name = ''Groceries'', jt_category_type = Expense,
           jt_ledger_name = ''Primary Checking'', jt_ledger_type = ''checking'' \<rparr> None)"
proof -
  have h: "\<forall>t\<in>set (db_transactions (seedData ''2024-01'')). txn_id t \<noteq> ''txn_999''"
    "\<forall>l\<in>set (db_ledgers (seedData ''2024-01'')). led_id l \<noteq> ''paypal''"
    "\<forall>b\<in>set (db_budgets (seedData ''2024-01'')). bud_id b \<noteq> ''budget_pets''"
    by code_simp+
  have v: "getRecordDetails sample_env (seedData ''2024-01'') ''transaction'' ''txn_001'' False
     = Inr (TransactionDetails
         \<lparr> jt_transaction =
             \<lparr> txn_id = ''txn_001'', txn_type = Expense, txn_amount = 4599 / 100,
               txn_category_id = ''groceries'', txn_ledger_id = ''checking'',
               txn_description = ''Weekly grocery shopping'', txn_date = ''2024-01-05'',
               txn_tags = ''weekly,essential'' \<rparr>,
           jt_category_name = ''Groceries'', jt_category_type = Expense,
           jt_ledger_name = ''Primary Checking'', jt_ledger_type = ''checking'' \<rparr> None)"
    by code_simp
  have "getRecordDetails sample_env (seedData ''2024-01'') ''transaction'' ''txn_999'' False
          = Inl (Error (''Transaction not found: '' @ ''txn_999''))"
    "getRecordDetails sample_env (seedData ''2024-01'') ''ledger_record'' ''paypal'' False
          = Inl (Error (''Ledger not found: '' @ ''paypal''))"
    "getRecordDetails sample_env (seedData ''2024-01'') ''budget_snapshot'' ''budget_pets'' False
          = Inl (Error (''Budget not found: '' @ ''budget_pets''))"
    using getRecordDetails_lookup [of "seedData ''2024-01''" "''txn_999''" sample_env False]
          getRecordDetails_lookup [of "seedData ''2024-01''" "''paypal''" sample_env False]
          getRecordDetails_lookup [of "seedData ''2024-01''" "''budget_pets''" sample_env False] h
    by blast+
  then show ?thesis using v by simp
qed

subsection \<open>CSV export\<close>

lemma undouble_double: "undouble_quotes (double_quotes s) = s"
proof (induction s)
  case Nil
  then show ?case by (simp add: double_quotes_def)
next
  case (Cons c s)
  have step: "double_quotes (c # s) = (if c = dquote then [dquote, dquote] else [c]) @ double_quotes s"
    by (simp add: double_quotes_def)
  show ?case
  proof (cases "c = dquote")
    case True
    show ?thesis unfolding step using True Cons by simp
  next
    case False
    show ?thesis unfolding step using False Cons by (cases "double_quotes s") simp_all
  qed
qed

lemma count_double_quotes: "count_list (double_quotes s) dquote = 2 * count_list s dquote"
  by (induction s) (simp_all add: double_quotes_def)

text \<open>
  C9. For every non-empty array of flat records, the CSV text is the header line followed
  by one line for each record: the header line is the keys of the first record joined by
  commas, and every cell of a record line is the value of the record under the header,
  put between double quotes with every embedded double quote doubled (so that undoubling
  the body of the cell gives the text of the value back). A value that is missing (or
  null) is rendered as the empty string between quotes. For an input that is not an
  array the function throws \<open>CSV format requires array data\<close>, which the dispatcher turns
  into the message \<open>Error: CSV format requires array data\<close>.
\<close>

theorem formatExportData_csv_shape:
  "formatExportData_csv show_num DataObject = Inl (Error ''CSV format requires array data'')
   \<and> response_text (formatExportData_csv show_num DataObject) = ''Error: CSV format requires array data''
   \<and> formatExportData_csv show_num (DataArray (first # rest))
       = Inr (join [newline]
               (join '','' (map fst first)
                # map (\<lambda>row. join '','' (map (csv_cell show_num row) (map fst first))) (first # rest)))
   \<and> (\<forall>row header. \<exists>body.
          csv_cell show_num row header = dquote # body @ [dquote]
          \<and> undouble_quotes body = cell_text show_num row header
          \<and> count_list body dquote = 2 * count_list (cell_text show_num row header) dquote)
   \<and> (\<forall>row header s. map_of row header = Some (JStr s) \<longrightarrow> cell_text show_num row header = s)
   \<and> (\<forall>row header. map_of row header = None \<or> map_of row header = Some JNull \<longrightarrow>
          cell_text show_num row header = [] \<and> csv_cell show_num row header = [dquote, dquote])"
proof -
  have c1: "formatExportData_csv show_num DataObject = Inl (Error ''CSV format requires array data'')"
    by (simp add: formatExportData_csv_def)
  have c2: "response_text (formatExportData_csv show_num DataObject) = ''Error: CSV format requires array data''"
    by (simp add: formatExportData_csv_def response_text_def)
  have c3: "formatExportData_csv show_num (DataArray (first # rest))
       = Inr (join [newline]
               (join '','' (map fst first)
                # map (\<lambda>row. join '','' (map (csv_cell show_num row) (map fst first))) (first # rest)))"
    by (simp add: formatExportData_csv_def Let_def)
  have c4: "\<exists>body. csv_cell show_num row header = dquote # body @ [dquote]
          \<and> undouble_quotes body = cell_text show_num row header
          \<and> count_list body dquote = 2 * count_list (cell_text show_num row header) dquote"
    for row header
    by (rule exI [of _ "double_quotes (cell_text show_num row header)"])
       (simp add: csv_cell_def undouble_double count_double_quotes)
  have c5: "cell_text show_num row header = s" if "map_of row header = Some (JStr s)" for row header s
    using that by (simp add: cell_text_def)
  have c6: "cell_text show_num row header = [] \<and> csv_cell show_num row header = [dquote, dquote]"
    if "map_of row header = None \<or> map_of row header = Some JNull" for row header
    using that by (auto simp: cell_text_def csv_cell_def double_quotes_def)
  show ?thesis using c1 c2 c3 c4 c5 c6 by blast
qed


lemma sample_rows_csv:
  "formatExportData_csv sample_show_num (DataArray sample_rows)
     = Inr (''id,amount,description,tags'' @ [newline]
            @ [dquote] @ ''txn_001'' @ [dquote] @ '','' @ [dquote] @ ''45.99'' @ [dquote] @ '',''
            @ [dquote] @ ''a'' @ [dquote, dquote] @ ''b'' @ [dquote, dquote] @ [dquote] @ '',''
            @ [dquote, dquote] @ [newline]
            @ [dquote] @ ''txn_002'' @ [dquote] @ '','' @ [dquote, dquote] @ '',''
            @ [dquote] @ ''Fuel'' @ [dquote] @ '','' @ [dquote, dquote])"
  by code_simp

theorem formatExportData_csv_shape_witness:
  "map_of (sample_rows ! 1) ''tags'' = None
   \<and> csv_cell sample_show_num (sample_rows ! 1) ''tags'' = [dquote, dquote]
   \<and> map_of (sample_rows ! 0) ''description'' = Some (JStr [CHR ''a'', dquote, CHR ''b'', dquote])
   \<and> cell_text sample_show_num (sample_rows ! 0) ''description'' = [CHR ''a'', dquote, CHR ''b'', dquote]
   \<and> formatExportData_csv sample_show_num (DataArray sample_rows)
     = Inr (''id,amount,description,tags'' @ [newline]
            @ [dquote] @ ''txn_001'' @ [dquote] @ '','' @ [dquote] @ ''45.99'' @ [dquote] @ '',''
            @ [dquote] @ ''a'' @ [dquote, dquote] @ ''b'' @ [dquote, dquote] @ [dquote] @ '',''
            @ [dquote, dquote] @ [newline]
            @ [dquote] @ ''txn_002'' @ [dquote] @ '','' @ [dquote, dquote] @ '',''
            @ [dquote] @ ''Fuel'' @ [dquote] @ '','' @ [dquote, dquote])"
proof -
  have h1: "map_of (sample_rows ! 1) ''tags'' = None" by code_simp
  have h2: "map_of (sample_rows ! 0) ''description'' = Some (JStr [CHR ''a'', dquote, CHR ''b'', dquote])"
    by code_simp
  have "csv_cell sample_show_num (sample_rows ! 1) ''tags'' = [dquote, dquote]"
    "cell_text sample_show_num (sample_rows ! 0) ''description'' = [CHR ''a'', dquote, CHR ''b'', dquote]"
    using formatExportData_csv_shape [of sample_show_num] h1 h2 by blast+
  then show ?thesis using h1 h2 sample_rows_csv by simp
qed

subsection \<open>\<open>buildCategoryTree\<close>\<close>



















lemma buildCategoryTree_inherited_parent:
  "map_sum id bt_roots (buildCategoryTree inherited_parent)
     = Inl (Error ''TypeError: Cannot read properties of undefined'')"
  by code_simp



end
